theory Spec2Isabelle
  imports Complex_Main
begin

section \<open>Constants (src/config/constants.js)\<close>

text \<open>
  The JavaScript constants are string tables. Roles, stages, handlers and statuses
  are closed enumerations (the schemas restrict the stored strings to them), so
  each table is a datatype with one constructor per key.
\<close>

datatype role =
  CITIZEN
| ROLE_STAKEHOLDER_OFFICE
| ROLE_WEREDA_ANTI_CORRUPTION
| ROLE_KIFLEKETEMA_ANTI_CORRUPTION
| ROLE_KENTIBA_BIRO

datatype stage =
  STAKEHOLDER_FIRST
| STAKEHOLDER_SECOND
| WEREDA_FIRST
| WEREDA_SECOND
| KIFLEKETEMA_FIRST
| KIFLEKETEMA_SECOND
| KENTIBA

datatype handler =
  STAKEHOLDER_OFFICE
| WEREDA_ANTI_CORRUPTION
| KIFLEKETEMA_ANTI_CORRUPTION
| KENTIBA_BIRO

datatype status = PENDING | IN_PROGRESS | RESOLVED | ESCALATED

text \<open>Escalation timeframes, in milliseconds.\<close>

definition STAKEHOLDER_RESPONSE :: int where
  "STAKEHOLDER_RESPONSE = 3 * 24 * 60 * 60 * 1000"

definition WEREDA_RESPONSE :: int where
  "WEREDA_RESPONSE = 5 * 24 * 60 * 60 * 1000"

definition KIFLEKETEMA_RESPONSE :: int where
  "KIFLEKETEMA_RESPONSE = 7 * 24 * 60 * 60 * 1000"

section \<open>Documents (ComplaintSchema, UserSchema)\<close>

text \<open>
  Object ids are natural numbers, dates are milliseconds since the epoch
  (\<open>Date.getTime()\<close>), a field that may be \<open>undefined\<close> is an option.
\<close>

record escalation_entry =
  from_handler :: handler
  to_handler :: handler
  reason :: string
  date :: int

record response_doc =
  responder :: "nat option"
  responderRole :: handler
  response :: "string option"
  response_status :: status
  internalComment :: "string option"
  createdAt :: int

record resolution_doc =
  resolvedBy :: "nat option"
  resolverRole :: handler
  resolution_text :: "string option"
  resolvedAt :: int

record complaint =
  user :: nat
  title :: "string option"
  description :: "string option"
  stakeholderOffice :: "nat option"
  currentStage :: stage
  currentHandler :: handler
  status :: status
  location :: "string option"
  attachments :: "string list"
  submittedAt :: int
  stakeholderFirstResponseDue :: "int option"
  stakeholderSecondResponseDue :: "int option"
  weredaFirstResponseDue :: "int option"
  weredaSecondResponseDue :: "int option"
  kifleketemaFirstResponseDue :: "int option"
  kifleketemaSecondResponseDue :: "int option"
  escalationHistory :: "escalation_entry list"
  responses :: "response_doc list"
  resolution :: "resolution_doc option"
  updatedAt :: int
  additionalDetails :: "string option"
  relatedComplaint :: "nat option"
  secondStageComplaint :: "nat option"

record user_doc =
  user_id :: nat
  user_role :: role
  isApproved :: bool

text \<open>
  The route writes a due date through a computed field name
  (\<open>complaint[dueDateField] = dueDate\<close>); the six names are a datatype.
\<close>

datatype due_field =
  StakeholderFirstResponseDue
| StakeholderSecondResponseDue
| WeredaFirstResponseDue
| WeredaSecondResponseDue
| KifleketemaFirstResponseDue
| KifleketemaSecondResponseDue

fun get_due :: "due_field \<Rightarrow> complaint \<Rightarrow> int option" where
  "get_due StakeholderFirstResponseDue c = stakeholderFirstResponseDue c"
| "get_due StakeholderSecondResponseDue c = stakeholderSecondResponseDue c"
| "get_due WeredaFirstResponseDue c = weredaFirstResponseDue c"
| "get_due WeredaSecondResponseDue c = weredaSecondResponseDue c"
| "get_due KifleketemaFirstResponseDue c = kifleketemaFirstResponseDue c"
| "get_due KifleketemaSecondResponseDue c = kifleketemaSecondResponseDue c"

fun set_due :: "due_field \<Rightarrow> int option \<Rightarrow> complaint \<Rightarrow> complaint" where
  "set_due StakeholderFirstResponseDue d c = c\<lparr>stakeholderFirstResponseDue := d\<rparr>"
| "set_due StakeholderSecondResponseDue d c = c\<lparr>stakeholderSecondResponseDue := d\<rparr>"
| "set_due WeredaFirstResponseDue d c = c\<lparr>weredaFirstResponseDue := d\<rparr>"
| "set_due WeredaSecondResponseDue d c = c\<lparr>weredaSecondResponseDue := d\<rparr>"
| "set_due KifleketemaFirstResponseDue d c = c\<lparr>kifleketemaFirstResponseDue := d\<rparr>"
| "set_due KifleketemaSecondResponseDue d c = c\<lparr>kifleketemaSecondResponseDue := d\<rparr>"

subsection \<open>Schema validation and the pre-save hook\<close>

text \<open>
  \<open>save()\<close> validates the document against ComplaintSchema and rejects when a
  validator fails; the routes catch the rejection and answer 500. Stage, handler
  and status are enumerations already. What is left of the schema:
  \<^item> \<open>title\<close>, \<open>description\<close>, \<open>stakeholderOffice\<close> and \<open>location\<close> are
    \<open>required\<close> (a required string is present and not empty; \<open>user\<close> is always
    given by the routes);
  \<^item> in an escalationHistory entry, \<open>from\<close> is one of stakeholder_office,
    wereda_anti_corruption, kifleketema_anti_corruption and \<open>to\<close> is one of
    wereda_anti_corruption, kifleketema_anti_corruption, kentiba_biro (the
    second-stage branch of \<open>POST /\<close> picks its entry "using valid enum values").
\<close>

definition required_string :: "string option \<Rightarrow> bool" where
  "required_string v = (case v of None \<Rightarrow> False | Some s \<Rightarrow> s \<noteq> [])"

definition valid_escalation_entry :: "escalation_entry \<Rightarrow> bool" where
  "valid_escalation_entry e =
     (from_handler e \<in> {STAKEHOLDER_OFFICE, WEREDA_ANTI_CORRUPTION, KIFLEKETEMA_ANTI_CORRUPTION}
      \<and> to_handler e \<in> {WEREDA_ANTI_CORRUPTION, KIFLEKETEMA_ANTI_CORRUPTION, KENTIBA_BIRO})"

definition validate :: "complaint \<Rightarrow> bool" where
  "validate c =
     (required_string (title c) \<and> required_string (description c)
      \<and> stakeholderOffice c \<noteq> None \<and> required_string (location c)
      \<and> list_all valid_escalation_entry (escalationHistory c))"

text \<open>
  \<open>ComplaintSchema.pre("save")\<close>: a new document gets its first stakeholder due
  date, and every save stamps \<open>updatedAt\<close>. One clock reading \<open>now\<close> stands for
  all the \<open>new Date()\<close> calls of a request.
\<close>

definition pre_save :: "bool \<Rightarrow> int \<Rightarrow> complaint \<Rightarrow> complaint" where
  "pre_save isNew now c =
     (let c1 = (if isNew
                then c\<lparr>stakeholderFirstResponseDue := Some (now + 3 * 24 * 60 * 60 * 1000)\<rparr>
                else c)
      in c1\<lparr>updatedAt := now\<rparr>)"

section \<open>The stores\<close>

text \<open>
  Modelled from the spec: the OfficePerformance schema is not among the sources.
  The spec gives its fields: the counters totalComplaints, resolvedComplaints and
  escalatedComplaints, the running mean averageResolutionTime (in days) and the
  append-only failureRecords; a record is created lazily, so a new one starts with
  zero counters, mean 0 and no failure record. The counters are natural numbers
  (a double holds them exactly). The mean is a JavaScript number, a double: its
  type \<open>'n\<close> is left open, with \<open>0\<close> the default of a new record, and the
  operations on it are given to the routes that compute with it (see
  \<open>number_ops\<close>), so that nothing is assumed about rounding.
\<close>

record failure_record =
  failed_complaint :: nat
  escalatedFrom :: stage
  escalatedTo :: stage
  failure_reason :: string
  failure_date :: int

record 'n office_performance =
  totalComplaints :: nat
  resolvedComplaints :: nat
  escalatedComplaints :: nat
  averageResolutionTime :: 'n
  failureRecords :: "failure_record list"
  performance_updatedAt :: int

definition new_OfficePerformance :: "int \<Rightarrow> ('n::zero) office_performance" where
  "new_OfficePerformance now =
     \<lparr>totalComplaints = 0, resolvedComplaints = 0, escalatedComplaints = 0,
      averageResolutionTime = 0, failureRecords = [], performance_updatedAt = now\<rparr>"

text \<open>
  The complaint collection is a list, a complaint's \<open>_id\<close> its position: a new
  document gets the next free id, and saving an existing one replaces it in place.
  OfficePerformance documents are found by (office, officeRole).
\<close>

record 'n system =
  complaints :: "complaint list"
  users :: "user_doc list"
  performance :: "nat \<times> handler \<Rightarrow> 'n office_performance option"

definition findById :: "nat \<Rightarrow> complaint list \<Rightarrow> complaint option" where
  "findById i cs = (if i < length cs then Some (cs ! i) else None)"

definition findOne_role :: "role \<Rightarrow> user_doc list \<Rightarrow> user_doc option" where
  "findOne_role r us = find (\<lambda>u. user_role u = r) us"

definition findOne_performance ::
  "nat \<Rightarrow> handler \<Rightarrow> int \<Rightarrow> ('n::zero) system \<Rightarrow> 'n office_performance" where
  "findOne_performance officeId officeRole now s =
     (case performance s (officeId, officeRole) of
        None \<Rightarrow> new_OfficePerformance now
      | Some p \<Rightarrow> p)"

definition save_performance ::
  "nat \<Rightarrow> handler \<Rightarrow> ('n::zero) office_performance \<Rightarrow> 'n system \<Rightarrow> 'n system" where
  "save_performance officeId officeRole p s =
     s\<lparr>performance := (performance s)((officeId, officeRole) \<mapsto> p)\<rparr>"

section \<open>Requests and outcomes\<close>

text \<open>
  The authenticated caller (\<open>req.user\<close>), and what a route answers: success, or
  one of the failures of the spec's taxonomy. A rejected \<open>save()\<close> and any other
  exception end in the route's \<open>catch\<close>, status 500.
\<close>

record actor =
  actor_id :: nat
  actor_role :: role

datatype error =
  AuthorizationError
| NotFoundError
| AlreadyResolvedError
| TerminalStageError
| EscalationNotAllowedError
| ValidationError
| ServerError

datatype outcome = Success | Failure error

section \<open>POST /:id/escalate\<close>

text \<open>
  The \<open>switch\<close> over the current stage either returns at once (kentiba), leaves
  \<open>canEscalate\<close> false, or sets it with the next stage and handler, the
  from/to stages of a handler change (empty strings otherwise) and the name of
  the due-date field (empty for kentiba).
\<close>

datatype switch_result =
  AtFinalStage
| CannotEscalate
| CanEscalate stage handler "stage option" "stage option" "due_field option"

text \<open>\<open>now > due\<close>: the comparison with an \<open>undefined\<close> date is false.\<close>

definition date_passed :: "int \<Rightarrow> int option \<Rightarrow> bool" where
  "date_passed now due = (case due of None \<Rightarrow> False | Some d \<Rightarrow> now > d)"

definition escalate_switch :: "int \<Rightarrow> complaint \<Rightarrow> switch_result" where
  "escalate_switch now c =
     (case currentStage c of
        STAKEHOLDER_FIRST \<Rightarrow>
          if date_passed now (stakeholderFirstResponseDue c)
             \<or> (length (responses c) > 0 \<and> status c \<noteq> RESOLVED)
          then CanEscalate STAKEHOLDER_SECOND STAKEHOLDER_OFFICE None None
                 (Some StakeholderSecondResponseDue)
          else CannotEscalate
      | STAKEHOLDER_SECOND \<Rightarrow>
          if date_passed now (stakeholderSecondResponseDue c)
             \<or> (length (responses c) > 1 \<and> status c \<noteq> RESOLVED)
          then CanEscalate WEREDA_FIRST WEREDA_ANTI_CORRUPTION
                 (Some STAKEHOLDER_SECOND) (Some WEREDA_FIRST)
                 (Some WeredaFirstResponseDue)
          else CannotEscalate
      | WEREDA_FIRST \<Rightarrow>
          if date_passed now (weredaFirstResponseDue c)
             \<or> (length (responses c) > 2 \<and> status c \<noteq> RESOLVED)
          then CanEscalate WEREDA_SECOND WEREDA_ANTI_CORRUPTION None None
                 (Some WeredaSecondResponseDue)
          else CannotEscalate
      | WEREDA_SECOND \<Rightarrow>
          if date_passed now (weredaSecondResponseDue c)
             \<or> (length (responses c) > 3 \<and> status c \<noteq> RESOLVED)
          then CanEscalate KIFLEKETEMA_FIRST KIFLEKETEMA_ANTI_CORRUPTION
                 (Some WEREDA_SECOND) (Some KIFLEKETEMA_FIRST)
                 (Some KifleketemaFirstResponseDue)
          else CannotEscalate
      | KIFLEKETEMA_FIRST \<Rightarrow>
          if date_passed now (kifleketemaFirstResponseDue c)
             \<or> (length (responses c) > 4 \<and> status c \<noteq> RESOLVED)
          then CanEscalate KIFLEKETEMA_SECOND KIFLEKETEMA_ANTI_CORRUPTION None None
                 (Some KifleketemaSecondResponseDue)
          else CannotEscalate
      | KIFLEKETEMA_SECOND \<Rightarrow>
          if date_passed now (kifleketemaSecondResponseDue c)
             \<or> (length (responses c) > 5 \<and> status c \<noteq> RESOLVED)
          then CanEscalate KENTIBA KENTIBA_BIRO
                 (Some KIFLEKETEMA_SECOND) (Some KENTIBA) None
          else CannotEscalate
      | KENTIBA \<Rightarrow> AtFinalStage)"

text \<open>\<open>req.body.reason || fallback\<close>: an absent or empty reason gives the fallback.\<close>

definition reason_or :: "string option \<Rightarrow> string \<Rightarrow> string" where
  "reason_or r fallback =
     (case r of None \<Rightarrow> fallback | Some t \<Rightarrow> if t = [] then fallback else t)"

text \<open>The due date of the new stage, by the new handler's role.\<close>

definition escalation_dueDate :: "int \<Rightarrow> handler \<Rightarrow> int option" where
  "escalation_dueDate now nextHandler =
     (if nextHandler = STAKEHOLDER_OFFICE then Some (now + STAKEHOLDER_RESPONSE)
      else if nextHandler = WEREDA_ANTI_CORRUPTION then Some (now + WEREDA_RESPONSE)
      else if nextHandler = KIFLEKETEMA_ANTI_CORRUPTION then Some (now + KIFLEKETEMA_RESPONSE)
      else None)"

text \<open>
  The in-memory update of the complaint: stage, handler, status, \<open>updatedAt\<close>,
  the due date when a field is named, and the history entry. The entry is pushed
  after \<open>currentHandler\<close> has been overwritten, so both branches read the new
  handler there.
\<close>

definition escalate_complaint ::
  "int \<Rightarrow> string option \<Rightarrow> stage \<Rightarrow> handler \<Rightarrow> stage option \<Rightarrow> stage option
     \<Rightarrow> due_field option \<Rightarrow> complaint \<Rightarrow> complaint" where
  "escalate_complaint now body_reason nextStage nextHandler fromStage toStage dueDateField c =
     (let c1 = c\<lparr>currentStage := nextStage, currentHandler := nextHandler,
                  status := PENDING, updatedAt := now\<rparr>;
          c2 = (case dueDateField of
                  None \<Rightarrow> c1
                | Some f \<Rightarrow> set_due f (escalation_dueDate now nextHandler) c1)
      in if fromStage \<noteq> None \<and> toStage \<noteq> None
         then c2\<lparr>escalationHistory := escalationHistory c2 @
                [\<lparr>from_handler =
                     (if currentHandler c2 = WEREDA_ANTI_CORRUPTION
                      then STAKEHOLDER_OFFICE else WEREDA_ANTI_CORRUPTION),
                   to_handler = nextHandler,
                   reason = reason_or body_reason ''Escalated due to unresolved complaint'',
                   date = now\<rparr>]\<rparr>
         else c2\<lparr>escalationHistory := escalationHistory c2 @
                [\<lparr>from_handler = currentHandler c2,
                   to_handler = nextHandler,
                   reason = reason_or body_reason ''Escalated to next stage'',
                   date = now\<rparr>]\<rparr>)"

text \<open>
  The office that failed: the complaint's own stakeholder office, or the first
  user found with the role of the handler that is left (none when no such user
  exists).
\<close>

definition penalized_office :: "stage \<Rightarrow> complaint \<Rightarrow> user_doc list \<Rightarrow> (nat \<times> handler) option" where
  "penalized_office fromStage c us =
     (if fromStage = STAKEHOLDER_SECOND then
        (case stakeholderOffice c of
           None \<Rightarrow> None
         | Some officeId \<Rightarrow> Some (officeId, STAKEHOLDER_OFFICE))
      else if fromStage = WEREDA_SECOND then
        (case findOne_role ROLE_WEREDA_ANTI_CORRUPTION us of
           None \<Rightarrow> None
         | Some weredaOfficer \<Rightarrow> Some (user_id weredaOfficer, WEREDA_ANTI_CORRUPTION))
      else if fromStage = KIFLEKETEMA_SECOND then
        (case findOne_role ROLE_KIFLEKETEMA_ANTI_CORRUPTION us of
           None \<Rightarrow> None
         | Some kifleketemaOfficer \<Rightarrow>
             Some (user_id kifleketemaOfficer, KIFLEKETEMA_ANTI_CORRUPTION))
      else None)"

definition record_failure ::
  "nat \<Rightarrow> stage \<Rightarrow> stage \<Rightarrow> string \<Rightarrow> int \<Rightarrow> ('n::zero) office_performance
     \<Rightarrow> 'n office_performance" where
  "record_failure complaintId fromStage toStage r now p =
     p\<lparr>escalatedComplaints := escalatedComplaints p + 1,
       failureRecords := failureRecords p @
         [\<lparr>failed_complaint = complaintId, escalatedFrom = fromStage, escalatedTo = toStage,
           failure_reason = r, failure_date = now\<rparr>],
       performance_updatedAt := now\<rparr>"

text \<open>
  The performance write of a handler change; it is awaited before the complaint
  is saved.
\<close>

definition escalate_performance ::
  "nat \<Rightarrow> int \<Rightarrow> string option \<Rightarrow> stage option \<Rightarrow> stage option \<Rightarrow> complaint
     \<Rightarrow> ('n::zero) system \<Rightarrow> 'n system" where
  "escalate_performance complaintId now body_reason fromStage toStage c s =
     (case (fromStage, toStage) of
        (Some f, Some t) \<Rightarrow>
          (case penalized_office f c (users s) of
             None \<Rightarrow> s
           | Some (officeId, officeRole) \<Rightarrow>
               save_performance officeId officeRole
                 (record_failure complaintId f t
                    (reason_or body_reason ''Escalated due to unresolved complaint'') now
                    (findOne_performance officeId officeRole now s)) s)
      | _ \<Rightarrow> s)"

text \<open>Saving an existing complaint: validation, the pre-save hook, the write.\<close>

definition save_complaint ::
  "nat \<Rightarrow> int \<Rightarrow> complaint \<Rightarrow> ('n::zero) system \<Rightarrow> outcome \<times> 'n system" where
  "save_complaint complaintId now c s =
     (if validate c
      then (Success, s\<lparr>complaints := (complaints s)[complaintId := pre_save False now c]\<rparr>)
      else (Failure ServerError, s))"

definition escalate ::
  "actor \<Rightarrow> nat \<Rightarrow> string option \<Rightarrow> int \<Rightarrow> ('n::zero) system \<Rightarrow> outcome \<times> 'n system" where
  "escalate req_user complaintId body_reason now s =
     (if actor_role req_user \<noteq> CITIZEN then (Failure AuthorizationError, s)
      else (case findById complaintId (complaints s) of
              None \<Rightarrow> (Failure NotFoundError, s)
            | Some c \<Rightarrow>
                (if user c \<noteq> actor_id req_user then (Failure AuthorizationError, s)
                 else if status c = RESOLVED then (Failure AlreadyResolvedError, s)
                 else (case escalate_switch now c of
                         AtFinalStage \<Rightarrow> (Failure TerminalStageError, s)
                       | CannotEscalate \<Rightarrow> (Failure EscalationNotAllowedError, s)
                       | CanEscalate nextStage nextHandler fromStage toStage dueDateField \<Rightarrow>
                           (let c' = escalate_complaint now body_reason nextStage nextHandler
                                       fromStage toStage dueDateField c;
                                s1 = escalate_performance complaintId now body_reason
                                       fromStage toStage c' s
                            in save_complaint complaintId now c' s1)))))"

section \<open>POST / (first-stage and second-stage submission)\<close>

record create_body =
  body_title :: "string option"
  body_description :: "string option"
  stakeholderOfficeId :: "nat option"
  body_location :: "string option"
  isSecondStage :: "string option"
  originalComplaintId :: "nat option"
  body_additionalDetails :: "string option"
  files :: "string list"

text \<open>
  \<open>new Complaint({...})\<close> with the schema's defaults: no due date, empty
  history and responses, no resolution, \<open>submittedAt\<close> and \<open>updatedAt\<close> at the
  time of construction.
\<close>

definition new_Complaint ::
  "nat \<Rightarrow> create_body \<Rightarrow> stage \<Rightarrow> handler \<Rightarrow> string option \<Rightarrow> nat option \<Rightarrow> int
     \<Rightarrow> complaint" where
  "new_Complaint userId body stg hdl details related now =
     \<lparr>user = userId, title = body_title body, description = body_description body,
      stakeholderOffice = stakeholderOfficeId body,
      currentStage = stg, currentHandler = hdl, status = PENDING,
      location = body_location body, attachments = files body,
      submittedAt = now,
      stakeholderFirstResponseDue = None, stakeholderSecondResponseDue = None,
      weredaFirstResponseDue = None, weredaSecondResponseDue = None,
      kifleketemaFirstResponseDue = None, kifleketemaSecondResponseDue = None,
      escalationHistory = [], responses = [], resolution = None,
      updatedAt = now, additionalDetails = details,
      relatedComplaint = related, secondStageComplaint = None\<rparr>"

text \<open>Saving a new complaint: validation, the pre-save hook, the insert.\<close>

definition insert_complaint ::
  "int \<Rightarrow> complaint \<Rightarrow> ('n::zero) system \<Rightarrow> outcome \<times> 'n system" where
  "insert_complaint now c s =
     (if validate c
      then (Success, s\<lparr>complaints := complaints s @ [pre_save True now c]\<rparr>)
      else (Failure ServerError, s))"

definition count_complaint :: "nat \<Rightarrow> handler \<Rightarrow> int \<Rightarrow> ('n::zero) system \<Rightarrow> 'n system" where
  "count_complaint officeId officeRole now s =
     (let p = findOne_performance officeId officeRole now s
      in save_performance officeId officeRole
           (p\<lparr>totalComplaints := totalComplaints p + 1, performance_updatedAt := now\<rparr>) s)"

text \<open>
  The query for the original complaint of a second-stage submission: the id, the
  owner, one of the two first stages, status in_progress, at least one response.
\<close>

definition find_original :: "nat \<Rightarrow> nat \<Rightarrow> complaint list \<Rightarrow> complaint option" where
  "find_original originalId userId cs =
     (case findById originalId cs of
        None \<Rightarrow> None
      | Some c \<Rightarrow>
          if user c = userId
             \<and> (currentStage c = STAKEHOLDER_FIRST \<or> currentStage c = WEREDA_FIRST)
             \<and> status c = IN_PROGRESS
             \<and> responses c \<noteq> []
          then Some c else None)"

text \<open>
  Next stage, next handler, due-date field, due date and the \<open>to\<close> of the
  history entry, by the original's stage (the query admits no third stage).
\<close>

definition second_stage_plan ::
  "int \<Rightarrow> stage \<Rightarrow> (stage \<times> handler \<times> due_field \<times> int \<times> handler) option" where
  "second_stage_plan now stg =
     (if stg = STAKEHOLDER_FIRST
      then Some (STAKEHOLDER_SECOND, STAKEHOLDER_OFFICE, StakeholderSecondResponseDue,
                 now + STAKEHOLDER_RESPONSE, WEREDA_ANTI_CORRUPTION)
      else if stg = WEREDA_FIRST
      then Some (WEREDA_SECOND, WEREDA_ANTI_CORRUPTION, WeredaSecondResponseDue,
                 now + WEREDA_RESPONSE, KIFLEKETEMA_ANTI_CORRUPTION)
      else None)"

definition second_stage_original ::
  "nat \<Rightarrow> stage \<Rightarrow> handler \<Rightarrow> handler \<Rightarrow> int \<Rightarrow> complaint \<Rightarrow> complaint" where
  "second_stage_original newId nextStage nextHandler escalationTo now c =
     c\<lparr>secondStageComplaint := Some newId,
       currentStage := nextStage,
       status := ESCALATED,
       escalationHistory := escalationHistory c @
         [\<lparr>from_handler = nextHandler, to_handler = escalationTo,
           reason = ''Escalated to second stage by citizen'', date = now\<rparr>]\<rparr>"

text \<open>
  The second-stage branch: the new complaint is saved first, then the original,
  then the performance record of the office named in the body. A rejected save
  ends the request with what was written before it. The last two \<open>None\<close>
  cases cannot occur: the query admits the two first stages only, and a body
  without office id does not pass the validation of the new complaint.
\<close>

definition submit_second_stage ::
  "actor \<Rightarrow> create_body \<Rightarrow> nat \<Rightarrow> int \<Rightarrow> ('n::zero) system \<Rightarrow> outcome \<times> 'n system" where
  "submit_second_stage req_user body originalId now s =
     (case find_original originalId (actor_id req_user) (complaints s) of
        None \<Rightarrow> (Failure NotFoundError, s)
      | Some originalComplaint \<Rightarrow>
          (case second_stage_plan now (currentStage originalComplaint) of
             None \<Rightarrow> (Failure ServerError, s)
           | Some (nextStage, nextHandler, dueDateField, dueDate, escalationTo) \<Rightarrow>
               (let c = set_due dueDateField (Some dueDate)
                          (new_Complaint (actor_id req_user) body nextStage nextHandler
                             (Some (case body_additionalDetails body of
                                      None \<Rightarrow> [] | Some d \<Rightarrow> d))
                             (Some originalId) now);
                    newId = length (complaints s)
                in case insert_complaint now c s of
                     (Failure e, s1) \<Rightarrow> (Failure e, s1)
                   | (Success, s1) \<Rightarrow>
                       (case save_complaint originalId now
                               (second_stage_original newId nextStage nextHandler
                                  escalationTo now originalComplaint) s1 of
                          (Failure e, s2) \<Rightarrow> (Failure e, s2)
                        | (Success, s2) \<Rightarrow>
                            (case stakeholderOfficeId body of
                               None \<Rightarrow> (Failure ServerError, s2)
                             | Some officeId \<Rightarrow>
                                 (Success, count_complaint officeId nextHandler now s2))))))"

text \<open>
  The first-stage branch looks the office up among the approved stakeholder
  offices; an absent id finds none.
\<close>

definition find_stakeholderOffice :: "nat option \<Rightarrow> user_doc list \<Rightarrow> user_doc option" where
  "find_stakeholderOffice officeId us =
     (case officeId of
        None \<Rightarrow> None
      | Some i \<Rightarrow>
          find (\<lambda>u. user_id u = i \<and> user_role u = ROLE_STAKEHOLDER_OFFICE \<and> isApproved u) us)"

definition submit_first_stage ::
  "actor \<Rightarrow> create_body \<Rightarrow> int \<Rightarrow> ('n::zero) system \<Rightarrow> outcome \<times> 'n system" where
  "submit_first_stage req_user body now s =
     (case find_stakeholderOffice (stakeholderOfficeId body) (users s) of
        None \<Rightarrow> (Failure NotFoundError, s)
      | Some office \<Rightarrow>
          (let c = (new_Complaint (actor_id req_user) body STAKEHOLDER_FIRST STAKEHOLDER_OFFICE
                      None None now)
                   \<lparr>stakeholderFirstResponseDue := Some (now + STAKEHOLDER_RESPONSE)\<rparr>
           in case insert_complaint now c s of
                (Failure e, s1) \<Rightarrow> (Failure e, s1)
              | (Success, s1) \<Rightarrow>
                  (Success, count_complaint (user_id office) STAKEHOLDER_OFFICE now s1)))"

definition create ::
  "actor \<Rightarrow> create_body \<Rightarrow> int \<Rightarrow> ('n::zero) system \<Rightarrow> outcome \<times> 'n system" where
  "create req_user body now s =
     (if actor_role req_user \<noteq> CITIZEN then (Failure AuthorizationError, s)
      else (case (isSecondStage body = Some ''true'', originalComplaintId body) of
              (True, Some originalId) \<Rightarrow> submit_second_stage req_user body originalId now s
            | _ \<Rightarrow> submit_first_stage req_user body now s))"

section \<open>POST /:id/respond\<close>

text \<open>
  The handler check. \<open>complaint.stakeholderOffice.toString()\<close> is evaluated only
  for a stakeholder office on a complaint at the stakeholder level; on a complaint
  without office it throws (\<open>None\<close>). A caller that is none of the four offices
  is a citizen.
\<close>

definition isAuthorized :: "actor \<Rightarrow> complaint \<Rightarrow> bool option" where
  "isAuthorized req_user c =
     (if actor_role req_user = ROLE_STAKEHOLDER_OFFICE \<and> currentHandler c = STAKEHOLDER_OFFICE
      then (case stakeholderOffice c of
              None \<Rightarrow> None
            | Some officeId \<Rightarrow>
                Some (officeId = actor_id req_user))
      else Some ((actor_role req_user = ROLE_WEREDA_ANTI_CORRUPTION
                    \<and> currentHandler c = WEREDA_ANTI_CORRUPTION)
                 \<or> (actor_role req_user = ROLE_KIFLEKETEMA_ANTI_CORRUPTION
                    \<and> currentHandler c = KIFLEKETEMA_ANTI_CORRUPTION)
                 \<or> (actor_role req_user = ROLE_KENTIBA_BIRO
                    \<and> currentHandler c = KENTIBA_BIRO)))"

definition respond ::
  "actor \<Rightarrow> nat \<Rightarrow> string option \<Rightarrow> string option \<Rightarrow> int \<Rightarrow> ('n::zero) system
     \<Rightarrow> outcome \<times> 'n system" where
  "respond req_user complaintId body_response body_internalComment now s =
     (if actor_role req_user = CITIZEN then (Failure AuthorizationError, s)
      else (case findById complaintId (complaints s) of
              None \<Rightarrow> (Failure NotFoundError, s)
            | Some c \<Rightarrow>
                (case isAuthorized req_user c of
                   None \<Rightarrow> (Failure ServerError, s)
                 | Some False \<Rightarrow> (Failure AuthorizationError, s)
                 | Some True \<Rightarrow>
                     save_complaint complaintId now
                       (c\<lparr>responses := responses c @
                            [\<lparr>responder = Some (actor_id req_user),
                              responderRole = currentHandler c,
                              response = body_response,
                              response_status = IN_PROGRESS,
                              internalComment = body_internalComment,
                              createdAt = now\<rparr>],
                          status := IN_PROGRESS,
                          updatedAt := now\<rparr>) s)))"

section \<open>POST /:id/accept\<close>

text \<open>
  The arithmetic of JavaScript numbers that the route uses, as operations on the
  open number type: the conversion of an integer (a time in milliseconds, a
  counter), \<open>+\<close>, \<open>-\<close>, \<open>*\<close>, \<open>/\<close> and the test \<open>x === 0\<close>. The route's
  computation is written with them and holds for whatever they are, IEEE double
  arithmetic included.
\<close>

record 'n number_ops =
  n_of_int :: "int \<Rightarrow> 'n"
  n_add :: "'n \<Rightarrow> 'n \<Rightarrow> 'n"
  n_sub :: "'n \<Rightarrow> 'n \<Rightarrow> 'n"
  n_mul :: "'n \<Rightarrow> 'n \<Rightarrow> 'n"
  n_div :: "'n \<Rightarrow> 'n \<Rightarrow> 'n"
  n_is_zero :: "'n \<Rightarrow> bool"

text \<open>
  Elapsed days between submission and acceptance:
  \<open>(resolvedAt - submittedAt) / (1000 * 60 * 60 * 24)\<close>.
\<close>

definition resolutionTime :: "'n number_ops \<Rightarrow> int \<Rightarrow> int \<Rightarrow> 'n" where
  "resolutionTime ops resolved submitted =
     n_div ops (n_sub ops (n_of_int ops resolved) (n_of_int ops submitted))
       (n_of_int ops (1000 * 60 * 60 * 24))"

text \<open>
  The counter goes up, then the mean: the new sample itself when the stored mean
  \<open>=== 0\<close>, otherwise \<open>(mean * (resolvedComplaints - 1) + sample) / resolvedComplaints\<close>
  with the counter already incremented.
\<close>

definition record_resolution ::
  "'n number_ops \<Rightarrow> 'n \<Rightarrow> int \<Rightarrow> ('n::zero) office_performance \<Rightarrow> 'n office_performance" where
  "record_resolution ops t now p =
     (let p1 = p\<lparr>resolvedComplaints := resolvedComplaints p + 1\<rparr>;
          p2 = (if n_is_zero ops (averageResolutionTime p1)
                then p1\<lparr>averageResolutionTime := t\<rparr>
                else p1\<lparr>averageResolutionTime :=
                       n_div ops
                         (n_add ops
                            (n_mul ops (averageResolutionTime p1)
                               (n_of_int ops (int (resolvedComplaints p1) - 1)))
                            t)
                         (n_of_int ops (int (resolvedComplaints p1)))\<rparr>)
      in p2\<lparr>performance_updatedAt := now\<rparr>)"

definition accept ::
  "'n number_ops \<Rightarrow> actor \<Rightarrow> nat \<Rightarrow> int \<Rightarrow> ('n::zero) system \<Rightarrow> outcome \<times> 'n system" where
  "accept ops req_user complaintId now s =
     (if actor_role req_user \<noteq> CITIZEN then (Failure AuthorizationError, s)
      else (case findById complaintId (complaints s) of
              None \<Rightarrow> (Failure NotFoundError, s)
            | Some c \<Rightarrow>
                if user c \<noteq> actor_id req_user then (Failure AuthorizationError, s)
                else if responses c = [] then (Failure ValidationError, s)
                else
                  (let latestResponse = last (responses c);
                       c' = c\<lparr>status := RESOLVED,
                              resolution := Some
                                \<lparr>resolvedBy = responder latestResponse,
                                 resolverRole = responderRole latestResponse,
                                 resolution_text = response latestResponse,
                                 resolvedAt = now\<rparr>,
                              updatedAt := now\<rparr>
                   in case save_complaint complaintId now c' s of
                        (Failure e, s1) \<Rightarrow> (Failure e, s1)
                      | (Success, s1) \<Rightarrow>
                          (case responder latestResponse of
                             None \<Rightarrow> (Success, s1)
                           | Some officeId \<Rightarrow>
                               (Success,
                                save_performance officeId (responderRole latestResponse)
                                  (record_resolution ops
                                     (resolutionTime ops now (submittedAt c')) now
                                     (findOne_performance officeId
                                        (responderRole latestResponse) now s1)) s1)))))"

section \<open>Sequences of requests\<close>

datatype request =
  Create actor create_body int
| Escalate actor nat "string option" int
| Respond actor nat "string option" "string option" int
| Accept actor nat int

text \<open>
  Serving a request gives the next store; the number operations are those of the
  server.
\<close>

fun step :: "'n number_ops \<Rightarrow> ('n::zero) system \<Rightarrow> request \<Rightarrow> 'n system" where
  "step ops s (Create u body now) = snd (create u body now s)"
| "step ops s (Escalate u i r now) = snd (escalate u i r now s)"
| "step ops s (Respond u i r c now) = snd (respond u i r c now s)"
| "step ops s (Accept u i now) = snd (accept ops u i now s)"

definition run :: "'n number_ops \<Rightarrow> ('n::zero) system \<Rightarrow> request list \<Rightarrow> 'n system" where
  "run ops s rs = foldl (step ops) s rs"

text \<open>The position of a stage in the fixed order of the seven stages.\<close>

fun stage_index :: "stage \<Rightarrow> nat" where
  "stage_index STAKEHOLDER_FIRST = 0"
| "stage_index STAKEHOLDER_SECOND = 1"
| "stage_index WEREDA_FIRST = 2"
| "stage_index WEREDA_SECOND = 3"
| "stage_index KIFLEKETEMA_FIRST = 4"
| "stage_index KIFLEKETEMA_SECOND = 5"
| "stage_index KENTIBA = 6"

section \<open>Notions used in the properties\<close>

text \<open>
  The due-date field that belongs to a stage (kentiba has none), and the due date
  recorded for the stage a complaint is in.
\<close>

fun stage_due_field :: "stage \<Rightarrow> due_field option" where
  "stage_due_field STAKEHOLDER_FIRST = Some StakeholderFirstResponseDue"
| "stage_due_field STAKEHOLDER_SECOND = Some StakeholderSecondResponseDue"
| "stage_due_field WEREDA_FIRST = Some WeredaFirstResponseDue"
| "stage_due_field WEREDA_SECOND = Some WeredaSecondResponseDue"
| "stage_due_field KIFLEKETEMA_FIRST = Some KifleketemaFirstResponseDue"
| "stage_due_field KIFLEKETEMA_SECOND = Some KifleketemaSecondResponseDue"
| "stage_due_field KENTIBA = None"

definition stage_due :: "complaint \<Rightarrow> int option" where
  "stage_due c =
     (case stage_due_field (currentStage c) of None \<Rightarrow> None | Some f \<Rightarrow> get_due f c)"

text \<open>
  The eligibility rule as the specification words it: the due date of the current
  stage has passed, or there are more responses than the index of the stage.
\<close>

definition eligible :: "int \<Rightarrow> complaint \<Rightarrow> bool" where
  "eligible now c =
     (date_passed now (stage_due c) \<or> length (responses c) > stage_index (currentStage c))"

text \<open>The stages whose escalation hands the complaint to another handler.\<close>

definition crosses_handler :: "stage \<Rightarrow> bool" where
  "crosses_handler stg = (stg \<in> {STAKEHOLDER_SECOND, WEREDA_SECOND, KIFLEKETEMA_SECOND})"

text \<open>The handler in charge of a stage.\<close>

fun stage_handler :: "stage \<Rightarrow> handler" where
  "stage_handler STAKEHOLDER_FIRST = STAKEHOLDER_OFFICE"
| "stage_handler STAKEHOLDER_SECOND = STAKEHOLDER_OFFICE"
| "stage_handler WEREDA_FIRST = WEREDA_ANTI_CORRUPTION"
| "stage_handler WEREDA_SECOND = WEREDA_ANTI_CORRUPTION"
| "stage_handler KIFLEKETEMA_FIRST = KIFLEKETEMA_ANTI_CORRUPTION"
| "stage_handler KIFLEKETEMA_SECOND = KIFLEKETEMA_ANTI_CORRUPTION"
| "stage_handler KENTIBA = KENTIBA_BIRO"

definition handlers_match :: "('n::zero) system \<Rightarrow> bool" where
  "handlers_match s =
     list_all (\<lambda>c. currentHandler c = stage_handler (currentStage c)) (complaints s)"

text \<open>
  What an office's performance record says, read through the store; an office
  without record has zero counters, mean 0 and no failure record.
\<close>

definition escalated_count :: "('n::zero) system \<Rightarrow> nat \<times> handler \<Rightarrow> nat" where
  "escalated_count s k =
     (case performance s k of None \<Rightarrow> 0 | Some p \<Rightarrow> escalatedComplaints p)"

definition failure_records :: "('n::zero) system \<Rightarrow> nat \<times> handler \<Rightarrow> failure_record list" where
  "failure_records s k =
     (case performance s k of None \<Rightarrow> [] | Some p \<Rightarrow> failureRecords p)"

definition resolved_count :: "('n::zero) system \<Rightarrow> nat \<times> handler \<Rightarrow> nat" where
  "resolved_count s k =
     (case performance s k of None \<Rightarrow> 0 | Some p \<Rightarrow> resolvedComplaints p)"

definition average_time :: "('n::zero) system \<Rightarrow> nat \<times> handler \<Rightarrow> 'n" where
  "average_time s k =
     (case performance s k of None \<Rightarrow> 0 | Some p \<Rightarrow> averageResolutionTime p)"

text \<open>Days in milliseconds, and the response window of each handler in days.\<close>

definition days :: "int \<Rightarrow> int" where
  "days n = n * (24 * 60 * 60 * 1000)"

fun timeframe_days :: "handler \<Rightarrow> int option" where
  "timeframe_days STAKEHOLDER_OFFICE = Some 3"
| "timeframe_days WEREDA_ANTI_CORRUPTION = Some 5"
| "timeframe_days KIFLEKETEMA_ANTI_CORRUPTION = Some 7"
| "timeframe_days KENTIBA_BIRO = None"

text \<open>A request body that carries every field the schema requires.\<close>

definition body_complete :: "create_body \<Rightarrow> bool" where
  "body_complete body =
     (required_string (body_title body) \<and> required_string (body_description body)
      \<and> stakeholderOfficeId body \<noteq> None \<and> required_string (body_location body))"

text \<open>
  One collection follows another: no complaint has disappeared and none is at an
  earlier stage.
\<close>

definition advances :: "complaint list \<Rightarrow> complaint list \<Rightarrow> bool" where
  "advances cs cs' =
     (length cs \<le> length cs'
      \<and> list_all (\<lambda>i. stage_index (currentStage (cs ! i))
                          \<le> stage_index (currentStage (cs' ! i))) [0..<length cs])"

section \<open>Example data\<close>

definition ex_citizen :: actor where
  "ex_citizen = \<lparr>actor_id = 1, actor_role = CITIZEN\<rparr>"

definition ex_office :: actor where
  "ex_office = \<lparr>actor_id = 5, actor_role = ROLE_STAKEHOLDER_OFFICE\<rparr>"

definition ex_response :: "handler \<Rightarrow> response_doc" where
  "ex_response h =
     \<lparr>responder = Some 5, responderRole = h, response = Some ''We are looking into it'',
      response_status = IN_PROGRESS, internalComment = None, createdAt = 10\<rparr>"

text \<open>
  A complaint of citizen 1 against office 5, submitted at time 0, with its first
  due date three days later and no other due date.
\<close>

definition ex_complaint :: "stage \<Rightarrow> handler \<Rightarrow> status \<Rightarrow> response_doc list \<Rightarrow> complaint" where
  "ex_complaint stg hdl st rs =
     \<lparr>user = 1, title = Some ''Delayed permit'', description = Some ''No answer for months'',
      stakeholderOffice = Some 5, currentStage = stg, currentHandler = hdl, status = st,
      location = Some ''Arada'', attachments = [], submittedAt = 0,
      stakeholderFirstResponseDue = Some 259200000, stakeholderSecondResponseDue = None,
      weredaFirstResponseDue = None, weredaSecondResponseDue = None,
      kifleketemaFirstResponseDue = None, kifleketemaSecondResponseDue = None,
      escalationHistory = [], responses = rs, resolution = None, updatedAt = 0,
      additionalDetails = None, relatedComplaint = None, secondStageComplaint = None\<rparr>"

text \<open>
  Exact arithmetic on the reals, for the examples. Their operands and results are
  integers far below \<open>2^53\<close> (times in milliseconds, whole days, counters), and
  on those double arithmetic gives the same values.
\<close>

definition exact_numbers :: "real number_ops" where
  "exact_numbers =
     \<lparr>n_of_int = real_of_int, n_add = (+), n_sub = (-), n_mul = (*), n_div = (/),
      n_is_zero = (\<lambda>x. x = 0)\<rparr>"

text \<open>
  A store whose only user is the approved stakeholder office 5 (no wereda and no
  kifleketema officer is registered), without performance records.
\<close>

definition empty_store :: "('n::zero) system" where
  "empty_store =
     \<lparr>complaints = [],
      users = [\<lparr>user_id = 5, user_role = ROLE_STAKEHOLDER_OFFICE, isApproved = True\<rparr>],
      performance = Map.empty\<rparr>"

definition ex_empty :: "real system" where
  "ex_empty = empty_store"

definition ex_store :: "complaint \<Rightarrow> real system" where
  "ex_store c = ex_empty\<lparr>complaints := [c]\<rparr>"

text \<open>The body of a first-stage submission against office 5.\<close>

definition ex_body :: create_body where
  "ex_body =
     \<lparr>body_title = Some ''Delayed permit'', body_description = Some ''No answer for months'',
      stakeholderOfficeId = Some 5, body_location = Some ''Arada'',
      isSecondStage = None, originalComplaintId = None, body_additionalDetails = None,
      files = []\<rparr>"

text \<open>The body of a second-stage submission for complaint 0, naming an office.\<close>

definition ex_second_body :: "nat \<Rightarrow> create_body" where
  "ex_second_body officeId =
     ex_body\<lparr>stakeholderOfficeId := Some officeId, isSecondStage := Some ''true'',
             originalComplaintId := Some 0\<rparr>"

text \<open>
  Requests on a store that holds complaint 0: a response, a second-stage
  submission, another response, an escalation and an acceptance.
\<close>

definition ex_requests :: "request list" where
  "ex_requests =
     [Respond ex_office 0 (Some ''Please wait'') None 1000,
      Create ex_citizen (ex_second_body 5) 2000,
      Respond ex_office 0 (Some ''Still in review'') None 3000,
      Escalate ex_citizen 0 None 4000,
      Accept ex_citizen 0 5000]"



section \<open>Auxiliary lemmas\<close>

subsection \<open>The escalation route\<close>

text \<open>
  The switch decides by the eligibility rule; an eligible request then stands or
  falls with the validation of the updated complaint, which fails exactly for the
  step from stakeholder_first (lemma \<open>escalate_outcome\<close>).
\<close>

lemma switch_eligible:
  assumes "status c \<noteq> RESOLVED" "currentStage c \<noteq> KENTIBA"
  shows "(escalate_switch now c = CannotEscalate) = (\<not> eligible now c)"
    and "escalate_switch now c \<noteq> AtFinalStage"
  using assms
  by (auto simp: escalate_switch_def eligible_def stage_due_def split: stage.splits)

lemma switch_kentiba: "currentStage c = KENTIBA \<Longrightarrow> escalate_switch now c = AtFinalStage"
  by (simp add: escalate_switch_def)

lemma escalate_performance_complaints [simp]:
  "complaints (escalate_performance i now r fs ts c s) = complaints s"
  by (auto simp: escalate_performance_def save_performance_def split: option.splits prod.splits)

lemma escalate_performance_users [simp]:
  "users (escalate_performance i now r fs ts c s) = users s"
  by (auto simp: escalate_performance_def save_performance_def split: option.splits prod.splits)

lemma escalate_performance_within [simp]:
  "escalate_performance i now r None None c s = s"
  by (simp add: escalate_performance_def)

lemma escalate_eligible:
  assumes "actor_role u = CITIZEN" "findById i (complaints s) = Some c"
    "user c = actor_id u" "status c \<noteq> RESOLVED"
    "escalate_switch now c = CanEscalate ns nh fs ts df"
  shows "escalate u i r now s =
           save_complaint i now (escalate_complaint now r ns nh fs ts df c)
             (escalate_performance i now r fs ts (escalate_complaint now r ns nh fs ts df c) s)"
  using assms by (simp add: escalate_def Let_def)

lemma validate_set_due [simp]: "validate (set_due f d c) = validate c"
  by (cases f) (simp_all add: validate_def)

lemma switch_cases:
  assumes "escalate_switch now c = CanEscalate ns nh fs ts df"
  shows "(currentStage c = STAKEHOLDER_FIRST \<and> ns = STAKEHOLDER_SECOND \<and> nh = STAKEHOLDER_OFFICE
            \<and> fs = None \<and> ts = None \<and> df = Some StakeholderSecondResponseDue)
       \<or> (currentStage c = STAKEHOLDER_SECOND \<and> ns = WEREDA_FIRST \<and> nh = WEREDA_ANTI_CORRUPTION
            \<and> fs = Some STAKEHOLDER_SECOND \<and> ts = Some WEREDA_FIRST
            \<and> df = Some WeredaFirstResponseDue)
       \<or> (currentStage c = WEREDA_FIRST \<and> ns = WEREDA_SECOND \<and> nh = WEREDA_ANTI_CORRUPTION
            \<and> fs = None \<and> ts = None \<and> df = Some WeredaSecondResponseDue)
       \<or> (currentStage c = WEREDA_SECOND \<and> ns = KIFLEKETEMA_FIRST
            \<and> nh = KIFLEKETEMA_ANTI_CORRUPTION
            \<and> fs = Some WEREDA_SECOND \<and> ts = Some KIFLEKETEMA_FIRST
            \<and> df = Some KifleketemaFirstResponseDue)
       \<or> (currentStage c = KIFLEKETEMA_FIRST \<and> ns = KIFLEKETEMA_SECOND
            \<and> nh = KIFLEKETEMA_ANTI_CORRUPTION
            \<and> fs = None \<and> ts = None \<and> df = Some KifleketemaSecondResponseDue)
       \<or> (currentStage c = KIFLEKETEMA_SECOND \<and> ns = KENTIBA \<and> nh = KENTIBA_BIRO
            \<and> fs = Some KIFLEKETEMA_SECOND \<and> ts = Some KENTIBA \<and> df = None)"
  using assms
  by (cases "currentStage c") (simp_all add: escalate_switch_def split: if_splits)

lemma validate_escalate_complaint:
  assumes "validate c" "escalate_switch now c = CanEscalate ns nh fs ts df"
  shows "validate (escalate_complaint now r ns nh fs ts df c) = (currentStage c \<noteq> STAKEHOLDER_FIRST)"
  using switch_cases[OF assms(2)] assms(1)
  by (elim disjE conjE)
     (simp_all add: escalate_complaint_def Let_def validate_def valid_escalation_entry_def)

lemma escalate_outcome:
  assumes "actor_role u = CITIZEN" "findById i (complaints s) = Some c"
    "user c = actor_id u" "status c \<noteq> RESOLVED" "currentStage c \<noteq> KENTIBA" "validate c"
  shows "fst (escalate u i r now s) =
           (if \<not> eligible now c then Failure EscalationNotAllowedError
            else if currentStage c = STAKEHOLDER_FIRST then Failure ServerError
            else Success)"
proof (cases "escalate_switch now c")
  case AtFinalStage
  then show ?thesis using switch_eligible(2)[OF assms(4,5), of now] by simp
next
  case CannotEscalate
  then show ?thesis
    using switch_eligible(1)[OF assms(4,5), of now] assms(1-4) by (simp add: escalate_def)
next
  case (CanEscalate ns nh fs ts df)
  then have "eligible now c" using switch_eligible(1)[OF assms(4,5), of now] by simp
  then show ?thesis
    using escalate_eligible[OF assms(1-4) CanEscalate, of r]
      validate_escalate_complaint[OF assms(6) CanEscalate, of r]
    by (simp add: save_complaint_def)
qed

lemma escalate_stakeholder_first:
  assumes "actor_role u = CITIZEN" "findById i (complaints s) = Some c"
    "user c = actor_id u" "status c \<noteq> RESOLVED" "currentStage c = STAKEHOLDER_FIRST" "validate c"
    "eligible now c"
  shows "escalate u i r now s = (Failure ServerError, s)"
proof -
  have ne: "currentStage c \<noteq> KENTIBA" using assms(5) by simp
  obtain ns nh fs ts df where sw: "escalate_switch now c = CanEscalate ns nh fs ts df"
    using switch_eligible[OF assms(4) ne, of now] assms(7)
    by (cases "escalate_switch now c") auto
  have "fs = None" "ts = None" using switch_cases[OF sw] assms(5) by auto
  then show ?thesis
    using escalate_eligible[OF assms(1-4) sw, of r]
      validate_escalate_complaint[OF assms(6) sw, of r] assms(5)
    by (simp add: save_complaint_def)
qed

lemma escalate_success:
  assumes "actor_role u = CITIZEN" "findById i (complaints s) = Some c"
    "user c = actor_id u" "fst (escalate u i r now s) = Success"
  shows "\<exists>ns nh fs ts df.
           escalate_switch now c = CanEscalate ns nh fs ts df
           \<and> validate (escalate_complaint now r ns nh fs ts df c)
           \<and> snd (escalate u i r now s) =
               (escalate_performance i now r fs ts (escalate_complaint now r ns nh fs ts df c) s)
                 \<lparr>complaints := (complaints s)
                     [i := pre_save False now (escalate_complaint now r ns nh fs ts df c)]\<rparr>"
proof -
  have nr: "status c \<noteq> RESOLVED" using assms by (auto simp: escalate_def)
  show ?thesis
  proof (cases "escalate_switch now c")
    case AtFinalStage
    then show ?thesis using assms nr by (simp add: escalate_def)
  next
    case CannotEscalate
    then show ?thesis using assms nr by (simp add: escalate_def)
  next
    case (CanEscalate ns nh fs ts df)
    then show ?thesis
      using escalate_eligible[OF assms(1-3) nr CanEscalate, of r] assms(4)
      by (auto simp: save_complaint_def split: if_splits)
  qed
qed

lemma get_due_pre_save_False [simp]: "get_due f (pre_save False now c) = get_due f c"
  by (cases f) (simp_all add: pre_save_def)

lemma pre_save_False_fields [simp]:
  "currentStage (pre_save False now c) = currentStage c"
  "currentHandler (pre_save False now c) = currentHandler c"
  "status (pre_save False now c) = status c"
  "escalationHistory (pre_save False now c) = escalationHistory c"
  "responses (pre_save False now c) = responses c"
  "secondStageComplaint (pre_save False now c) = secondStageComplaint c"
  "user (pre_save False now c) = user c"
  "stakeholderOffice (pre_save False now c) = stakeholderOffice c"
  by (simp_all add: pre_save_def)

lemma get_set_due: "get_due g (set_due f d c) = (if g = f then d else get_due g c)"
  by (cases f; cases g) simp_all

lemma get_due_other_updates [simp]:
  "get_due f (c\<lparr>currentStage := a\<rparr>) = get_due f c"
  "get_due f (c\<lparr>currentHandler := b\<rparr>) = get_due f c"
  "get_due f (c\<lparr>status := st\<rparr>) = get_due f c"
  "get_due f (c\<lparr>updatedAt := t\<rparr>) = get_due f c"
  "get_due f (c\<lparr>escalationHistory := h\<rparr>) = get_due f c"
  by (cases f; simp)+

lemma set_due_fields [simp]:
  "currentStage (set_due f d c) = currentStage c"
  "currentHandler (set_due f d c) = currentHandler c"
  "status (set_due f d c) = status c"
  "escalationHistory (set_due f d c) = escalationHistory c"
  "responses (set_due f d c) = responses c"
  "stakeholderOffice (set_due f d c) = stakeholderOffice c"
  "user (set_due f d c) = user c"
  "relatedComplaint (set_due f d c) = relatedComplaint c"
  "secondStageComplaint (set_due f d c) = secondStageComplaint c"
  by (cases f; simp)+

lemma findById_Some: "findById i cs = Some c \<Longrightarrow> i < length cs \<and> cs ! i = c"
  by (auto simp: findById_def split: if_splits)

lemma escalate_new_complaint:
  assumes "actor_role u = CITIZEN" "findById i (complaints s) = Some c"
    "user c = actor_id u" "fst (escalate u i r now s) = Success"
  shows "\<exists>ns nh fs ts df.
           escalate_switch now c = CanEscalate ns nh fs ts df
           \<and> complaints (snd (escalate u i r now s)) ! i
               = pre_save False now (escalate_complaint now r ns nh fs ts df c)
           \<and> performance (snd (escalate u i r now s))
               = performance (escalate_performance i now r fs ts
                                (escalate_complaint now r ns nh fs ts df c) s)
           \<and> validate (escalate_complaint now r ns nh fs ts df c)"
proof -
  from escalate_success[OF assms] obtain ns nh fs ts df where
    sw: "escalate_switch now c = CanEscalate ns nh fs ts df"
    and v: "validate (escalate_complaint now r ns nh fs ts df c)"
    and st: "snd (escalate u i r now s) =
               (escalate_performance i now r fs ts (escalate_complaint now r ns nh fs ts df c) s)
                 \<lparr>complaints := (complaints s)
                     [i := pre_save False now (escalate_complaint now r ns nh fs ts df c)]\<rparr>"
    by blast
  have "i < length (complaints s)" using findById_Some[OF assms(2)] by simp
  then show ?thesis using sw v st by simp
qed

lemmas route_defs =
  escalate_def findById_def escalate_switch_def date_passed_def escalate_complaint_def
  escalation_dueDate_def escalate_performance_def penalized_office_def findOne_role_def
  findOne_performance_def save_performance_def record_failure_def new_OfficePerformance_def
  save_complaint_def validate_def required_string_def valid_escalation_entry_def pre_save_def
  reason_or_def STAKEHOLDER_RESPONSE_def WEREDA_RESPONSE_def KIFLEKETEMA_RESPONSE_def

lemmas ex_defs = ex_citizen_def ex_office_def ex_response_def ex_complaint_def ex_empty_def
  empty_store_def ex_store_def ex_body_def ex_second_body_def

lemma save_performance_lookup:
  "performance (save_performance a b p s) = (performance s)((a, b) \<mapsto> p)"
  by (simp add: save_performance_def)

lemma penalized_office_escalate_complaint:
  "penalized_office f (escalate_complaint now r ns nh fs ts df c) us = penalized_office f c us"
  by (simp add: penalized_office_def escalate_complaint_def Let_def del: set_due.simps
        split: option.splits)

subsection \<open>Stages along a sequence of requests\<close>

lemma advances_iff:
  "advances cs cs' =
     (length cs \<le> length cs'
      \<and> (\<forall>i<length cs. stage_index (currentStage (cs ! i))
                          \<le> stage_index (currentStage (cs' ! i))))"
  by (auto simp: advances_def list_all_iff)

lemma advances_refl: "advances cs cs"
  by (simp add: advances_iff)

lemma advances_trans: "advances a b \<Longrightarrow> advances b c \<Longrightarrow> advances a c"
  unfolding advances_iff
  by (meson le_trans less_le_trans)

lemma advances_append: "advances cs (cs @ [c])"
  by (simp add: advances_iff nth_append)

lemma advances_update:
  assumes "i < length cs" "stage_index (currentStage (cs ! i)) \<le> stage_index (currentStage c)"
  shows "advances cs (cs[i := c])"
  using assms by (auto simp: advances_iff nth_list_update)

lemma validate_pre_save [simp]: "validate (pre_save b now c) = validate c"
  by (simp add: pre_save_def validate_def Let_def)

lemma save_complaint_advances:
  assumes "i < length (complaints s)"
    "stage_index (currentStage (complaints s ! i)) \<le> stage_index (currentStage c)"
  shows "advances (complaints s) (complaints (snd (save_complaint i now c s)))"
  using assms by (simp add: save_complaint_def advances_refl advances_update)

lemma insert_complaint_advances:
  "advances (complaints s) (complaints (snd (insert_complaint now c s)))"
  by (simp add: insert_complaint_def advances_refl advances_append pre_save_def)

lemma count_complaint_complaints [simp]:
  "complaints (count_complaint a b now s) = complaints s"
  by (simp add: count_complaint_def save_performance_def Let_def)

lemma save_performance_complaints [simp]:
  "complaints (save_performance a b p s) = complaints s"
  by (simp add: save_performance_def)

lemma switch_next_stage:
  assumes "escalate_switch now c = CanEscalate ns nh fs ts df"
  shows "stage_index ns = Suc (stage_index (currentStage c))"
  using switch_cases[OF assms] by auto

lemma escalate_complaint_stage [simp]:
  "currentStage (escalate_complaint now r ns nh fs ts df c) = ns"
  by (simp add: escalate_complaint_def Let_def split: option.splits del: set_due.simps)

lemma escalate_advances:
  "advances (complaints s) (complaints (snd (escalate u i r now s)))"
proof (cases "findById i (complaints s)")
  case None
  then show ?thesis by (simp add: escalate_def advances_refl)
next
  case (Some c)
  note fb = findById_Some[OF Some]
  show ?thesis
  proof (cases "escalate_switch now c")
    case (CanEscalate ns nh fs ts df)
    have "advances (complaints (escalate_performance i now r fs ts
                       (escalate_complaint now r ns nh fs ts df c) s))
            (complaints (snd (save_complaint i now (escalate_complaint now r ns nh fs ts df c)
               (escalate_performance i now r fs ts
                  (escalate_complaint now r ns nh fs ts df c) s))))"
      by (rule save_complaint_advances) (use fb switch_next_stage[OF CanEscalate] in simp_all)
    then show ?thesis
      using Some CanEscalate by (simp add: escalate_def advances_refl Let_def)
  qed (use Some in \<open>simp_all add: escalate_def advances_refl\<close>)
qed

lemma respond_advances:
  "advances (complaints s) (complaints (snd (respond u i a b now s)))"
proof (cases "findById i (complaints s)")
  case None
  then show ?thesis by (simp add: respond_def advances_refl)
next
  case (Some c)
  note fb = findById_Some[OF Some]
  have "advances (complaints s) (complaints (snd (save_complaint i now c' s)))"
    if "currentStage c' = currentStage c" for c'
    by (rule save_complaint_advances) (use fb that in simp_all)
  then show ?thesis
    using Some by (simp add: respond_def advances_refl split: option.splits bool.splits)
qed

lemma accept_advances:
  "advances (complaints s) (complaints (snd (accept ops u i now s)))"
proof (cases "findById i (complaints s)")
  case None
  then show ?thesis by (simp add: accept_def advances_refl)
next
  case (Some c)
  note fb = findById_Some[OF Some]
  have "advances (complaints s) (complaints (snd (save_complaint i now c' s)))"
    if "currentStage c' = currentStage c" for c'
    by (rule save_complaint_advances) (use fb that in simp_all)
  from this[of "c\<lparr>status := RESOLVED,
                  resolution := Some
                    \<lparr>resolvedBy = responder (last (responses c)),
                     resolverRole = responderRole (last (responses c)),
                     resolution_text = response (last (responses c)),
                     resolvedAt = now\<rparr>,
                  updatedAt := now\<rparr>"]
  show ?thesis
    using Some
    by (auto simp: accept_def advances_refl Let_def split: prod.splits outcome.splits option.splits)
qed

lemma insert_complaint_advancesD:
  "insert_complaint now c s = (res, s') \<Longrightarrow> advances (complaints s) (complaints s')"
  using insert_complaint_advances[of s now c] by simp

lemma save_complaint_advancesD:
  assumes "save_complaint i now c s = (res, s')" "i < length (complaints s)"
    "stage_index (currentStage (complaints s ! i)) \<le> stage_index (currentStage c)"
  shows "advances (complaints s) (complaints s')"
  using save_complaint_advances[OF assms(2,3), of now] assms(1) by simp

lemma submit_first_stage_advances:
  "advances (complaints s) (complaints (snd (submit_first_stage u body now s)))"
  by (auto simp: submit_first_stage_def advances_refl Let_def
        dest: insert_complaint_advancesD
        split: option.splits prod.splits outcome.splits)

lemma find_original_Some:
  "find_original o' uid cs = Some c \<longleftrightarrow>
     findById o' cs = Some c \<and> user c = uid
     \<and> (currentStage c = STAKEHOLDER_FIRST \<or> currentStage c = WEREDA_FIRST)
     \<and> status c = IN_PROGRESS \<and> responses c \<noteq> []"
  by (auto simp: find_original_def split: option.splits)

lemma insert_complaint_length:
  "insert_complaint now c s = (res, s') \<Longrightarrow> length (complaints s) \<le> length (complaints s')"
  by (auto simp: insert_complaint_def split: if_splits)

lemma insert_complaint_nth:
  "insert_complaint now c s = (res, s') \<Longrightarrow> i < length (complaints s)
     \<Longrightarrow> complaints s' ! i = complaints s ! i"
  by (auto simp: insert_complaint_def nth_append split: if_splits)

lemma second_stage_plan_stage:
  "second_stage_plan now stg = Some (ns, nh, df, dd, eto)
     \<Longrightarrow> stage_index stg \<le> stage_index ns"
  by (auto simp: second_stage_plan_def split: if_splits)

lemma submit_second_stage_advances:
  "advances (complaints s) (complaints (snd (submit_second_stage u body o' now s)))"
proof (cases "find_original o' (actor_id u) (complaints s)")
  case None
  then show ?thesis by (simp add: submit_second_stage_def advances_refl)
next
  case (Some c)
  then have fb: "o' < length (complaints s)" "complaints s ! o' = c"
    using findById_Some[of o' "complaints s" c] by (simp_all add: find_original_Some)
  show ?thesis
  proof (cases "second_stage_plan now (currentStage c)")
    case None
    then show ?thesis using Some by (simp add: submit_second_stage_def advances_refl)
  next
    case (Some plan)
    obtain ns nh df dd eto where plan: "plan = (ns, nh, df, dd, eto)"
      by (cases plan) auto
    note st = second_stage_plan_stage[OF Some[unfolded plan]]
    let ?new = "set_due df (Some dd)
                  (new_Complaint (actor_id u) body ns nh
                     (Some (case body_additionalDetails body of None \<Rightarrow> [] | Some d \<Rightarrow> d))
                     (Some o') now)"
    let ?orig = "second_stage_original (length (complaints s)) ns nh eto now c"
    obtain r1 s1 where i1: "insert_complaint now ?new s = (r1, s1)"
      by (cases "insert_complaint now ?new s") auto
    note a1 = insert_complaint_advancesD[OF i1]
    obtain r2 s2 where i2: "save_complaint o' now ?orig s1 = (r2, s2)"
      by (cases "save_complaint o' now ?orig s1") auto
    have l1: "o' < length (complaints s1)"
      using insert_complaint_length[OF i1] fb(1) by simp
    have n1: "complaints s1 ! o' = c"
      using insert_complaint_nth[OF i1 fb(1)] fb(2) by simp
    have "stage_index (currentStage (complaints s1 ! o')) \<le> stage_index (currentStage ?orig)"
      using st n1 by (simp add: second_stage_original_def)
    note a2 = advances_trans[OF a1 save_complaint_advancesD[OF i2 l1 this]]
    show ?thesis
      using \<open>find_original o' (actor_id u) (complaints s) = Some c\<close> Some plan i1 i2 a1 a2
      by (cases r1; cases r2)
         (auto simp: submit_second_stage_def Let_def split: option.splits)
  qed
qed

lemma create_advances:
  "advances (complaints s) (complaints (snd (create u body now s)))"
  by (auto simp: create_def advances_refl submit_first_stage_advances
        submit_second_stage_advances split: option.splits bool.splits)

lemma step_advances: "advances (complaints s) (complaints (step ops s rq))"
  by (cases rq)
     (simp_all add: create_advances escalate_advances respond_advances accept_advances)

lemma run_advances: "advances (complaints s) (complaints (run ops s rs))"
  unfolding run_def
proof (induction rs arbitrary: s)
  case Nil
  then show ?case by (simp add: advances_refl)
next
  case (Cons rq rs)
  show ?case
    using advances_trans[OF step_advances[of s ops rq] Cons.IH[of "step ops s rq"]] by simp
qed

subsection \<open>Second-stage submission\<close>

lemma validate_new_Complaint:
  "validate (new_Complaint uid body ns nh details related now) = body_complete body"
  by (simp add: validate_def new_Complaint_def body_complete_def)

lemma validate_second_stage_original:
  assumes "second_stage_plan now (currentStage c) = Some (ns, nh, df, dd, eto)"
  shows "validate (second_stage_original newId ns nh eto now' c) = validate c"
  using assms
  by (auto simp: second_stage_plan_def second_stage_original_def validate_def
        valid_escalation_entry_def split: if_splits)

lemma second_stage_plan_Some:
  "currentStage c = STAKEHOLDER_FIRST \<or> currentStage c = WEREDA_FIRST
     \<Longrightarrow> \<exists>ns nh df dd eto. second_stage_plan now (currentStage c) = Some (ns, nh, df, dd, eto)"
  by (auto simp: second_stage_plan_def)

lemma submit_second_stage_eval:
  assumes fo: "find_original o' (actor_id u) (complaints s) = Some c"
    and plan: "second_stage_plan now (currentStage c) = Some (ns, nh, df, dd, eto)"
  shows "submit_second_stage u body o' now s =
           (if \<not> body_complete body then (Failure ServerError, s)
            else if \<not> validate c
            then (Failure ServerError,
                  s\<lparr>complaints := complaints s @
                      [pre_save True now
                         (set_due df (Some dd)
                            (new_Complaint (actor_id u) body ns nh
                               (Some (case body_additionalDetails body of
                                        None \<Rightarrow> [] | Some d \<Rightarrow> d))
                               (Some o') now))]\<rparr>)
            else (Success,
                  count_complaint (the (stakeholderOfficeId body)) nh now
                    (s\<lparr>complaints := (complaints s @
                      [pre_save True now
                         (set_due df (Some dd)
                            (new_Complaint (actor_id u) body ns nh
                               (Some (case body_additionalDetails body of
                                        None \<Rightarrow> [] | Some d \<Rightarrow> d))
                               (Some o') now))])
                      [o' := pre_save False now
                               (second_stage_original (length (complaints s)) ns nh eto now c)]\<rparr>)))"
proof -
  have bc: "body_complete body \<Longrightarrow> \<exists>officeId. stakeholderOfficeId body = Some officeId"
    by (auto simp: body_complete_def)
  show ?thesis
    using fo plan bc
    by (auto simp: submit_second_stage_def Let_def insert_complaint_def save_complaint_def
          validate_new_Complaint validate_second_stage_original[OF plan]
          simp del: set_due.simps)
qed

lemma create_second_stage:
  assumes "actor_role u = CITIZEN" "isSecondStage body = Some ''true''"
    "originalComplaintId body = Some o'"
  shows "create u body now s = submit_second_stage u body o' now s"
  using assms by (simp add: create_def)

lemma submit_second_stage_success:
  assumes "fst (submit_second_stage u body o' now s) = Success"
  shows "\<exists>c ns nh df dd eto.
           find_original o' (actor_id u) (complaints s) = Some c
           \<and> second_stage_plan now (currentStage c) = Some (ns, nh, df, dd, eto)
           \<and> body_complete body \<and> validate c
           \<and> complaints (snd (submit_second_stage u body o' now s)) =
               (complaints s @
                  [pre_save True now
                     (set_due df (Some dd)
                        (new_Complaint (actor_id u) body ns nh
                           (Some (case body_additionalDetails body of
                                    None \<Rightarrow> [] | Some d \<Rightarrow> d))
                           (Some o') now))])
               [o' := pre_save False now
                        (second_stage_original (length (complaints s)) ns nh eto now c)]"
proof (cases "find_original o' (actor_id u) (complaints s)")
  case None
  then show ?thesis using assms by (simp add: submit_second_stage_def)
next
  case (Some c)
  then have "currentStage c = STAKEHOLDER_FIRST \<or> currentStage c = WEREDA_FIRST"
    by (simp add: find_original_Some)
  from second_stage_plan_Some[OF this, of now] obtain ns nh df dd eto where
    plan: "second_stage_plan now (currentStage c) = Some (ns, nh, df, dd, eto)" by blast
  show ?thesis
    using assms Some plan submit_second_stage_eval[OF Some plan, of body]
    by (auto split: if_splits)
qed

lemma second_stage_plan_cases:
  assumes "second_stage_plan now stg = Some (ns, nh, df, dd, eto)"
  shows "(stg = STAKEHOLDER_FIRST \<and> ns = STAKEHOLDER_SECOND \<and> nh = STAKEHOLDER_OFFICE
            \<and> df = StakeholderSecondResponseDue \<and> dd = now + STAKEHOLDER_RESPONSE
            \<and> eto = WEREDA_ANTI_CORRUPTION)
       \<or> (stg = WEREDA_FIRST \<and> ns = WEREDA_SECOND \<and> nh = WEREDA_ANTI_CORRUPTION
            \<and> df = WeredaSecondResponseDue \<and> dd = now + WEREDA_RESPONSE
            \<and> eto = KIFLEKETEMA_ANTI_CORRUPTION)"
  using assms by (auto simp: second_stage_plan_def split: if_splits)

lemmas all_route_defs =
  route_defs create_def submit_first_stage_def submit_second_stage_def find_original_def
  second_stage_plan_def second_stage_original_def new_Complaint_def insert_complaint_def
  count_complaint_def find_stakeholderOffice_def respond_def isAuthorized_def accept_def
  record_resolution_def resolutionTime_def

lemma second_stage_original_fields:
  assumes "fst (submit_second_stage u body o' now s) = Success"
  shows "\<exists>c ns nh eto df dd.
           findById o' (complaints s) = Some c
           \<and> find_original o' (actor_id u) (complaints s) = Some c
           \<and> second_stage_plan now (currentStage c) = Some (ns, nh, df, dd, eto)
           \<and> validate c
           \<and> complaints (snd (submit_second_stage u body o' now s)) ! o'
               = pre_save False now
                   (second_stage_original (length (complaints s)) ns nh eto now c)
           \<and> o' < length (complaints (snd (submit_second_stage u body o' now s)))"
proof -
  from submit_second_stage_success[OF assms] obtain c ns nh df dd eto where
    fo: "find_original o' (actor_id u) (complaints s) = Some c"
    and plan: "second_stage_plan now (currentStage c) = Some (ns, nh, df, dd, eto)"
    and v: "validate c"
    and cs: "complaints (snd (submit_second_stage u body o' now s)) =
               (complaints s @
                  [pre_save True now
                     (set_due df (Some dd)
                        (new_Complaint (actor_id u) body ns nh
                           (Some (case body_additionalDetails body of
                                    None \<Rightarrow> [] | Some d \<Rightarrow> d))
                           (Some o') now))])
               [o' := pre_save False now
                        (second_stage_original (length (complaints s)) ns nh eto now c)]"
    by blast
  have fb: "findById o' (complaints s) = Some c" using fo by (simp add: find_original_Some)
  have lt: "o' < length (complaints s)" using findById_Some[OF fb] by simp
  show ?thesis
    using fo fb plan v lt unfolding cs by (auto simp: nth_list_update)
qed

subsection \<open>Acceptance\<close>

lemma save_complaint_performance:
  "save_complaint i now c s = (res, s') \<Longrightarrow> performance s' = performance s"
  by (auto simp: save_complaint_def split: if_splits)

lemma accept_performance:
  assumes "actor_role u = CITIZEN" and "findById i (complaints s) = Some c"
    and "user c = actor_id u" and "fst (accept ops u i now s) = Success"
    and "responder (last (responses c)) = Some office"
  shows "performance (snd (accept ops u i now s)) =
           (performance s)((office, responderRole (last (responses c))) \<mapsto>
              record_resolution ops (resolutionTime ops now (submittedAt c)) now
                (findOne_performance office (responderRole (last (responses c))) now s))"
  using assms
  by (auto simp: accept_def Let_def save_complaint_def save_performance_def
        findOne_performance_def split: if_splits)

lemma record_resolution_fields:
  "resolvedComplaints (record_resolution ops t now p) = resolvedComplaints p + 1"
  "averageResolutionTime (record_resolution ops t now p) =
     (if n_is_zero ops (averageResolutionTime p) then t
      else n_div ops
             (n_add ops (n_mul ops (averageResolutionTime p) (n_of_int ops (int (resolvedComplaints p))))
                t)
             (n_of_int ops (int (resolvedComplaints p) + 1)))"
  by (simp_all add: record_resolution_def Let_def add.commute)

text \<open>
  What an acceptance does to the responder's record, for any number operations:
  the counter grows by 1; the mean becomes the new sample when the stored mean
  tests as zero, and the weighted combination of the stored mean and the new
  sample otherwise.
\<close>

lemma accept_average_resolution_time:
  fixes ops u i now s c office
  defines "k \<equiv> (office, responderRole (last (responses c)))"
    and "t \<equiv> resolutionTime ops now (submittedAt c)"
  assumes "actor_role u = CITIZEN" and "findById i (complaints s) = Some c"
    and "user c = actor_id u" and "fst (accept ops u i now s) = Success"
    and "responder (last (responses c)) = Some office"
  shows "resolved_count (snd (accept ops u i now s)) k = resolved_count s k + 1
       \<and> average_time (snd (accept ops u i now s)) k =
           (if n_is_zero ops (average_time s k) then t
            else n_div ops
                   (n_add ops
                      (n_mul ops (average_time s k)
                         (n_of_int ops (int (resolved_count (snd (accept ops u i now s)) k) - 1)))
                      t)
                   (n_of_int ops (int (resolved_count (snd (accept ops u i now s)) k))))"
proof -
  have p: "performance (snd (accept ops u i now s)) k =
             Some (record_resolution ops t now
                     (findOne_performance office (responderRole (last (responses c))) now s))"
    using accept_performance[OF assms(3-7)] by (simp add: k_def t_def)
  have old: "resolved_count s k
               = resolvedComplaints (findOne_performance office
                   (responderRole (last (responses c))) now s)"
    "average_time s k
               = averageResolutionTime (findOne_performance office
                   (responderRole (last (responses c))) now s)"
    by (simp_all add: resolved_count_def average_time_def findOne_performance_def k_def
          new_OfficePerformance_def split: option.splits)
  have new: "resolved_count (snd (accept ops u i now s)) k
               = resolvedComplaints (record_resolution ops t now
                   (findOne_performance office (responderRole (last (responses c))) now s))"
    "average_time (snd (accept ops u i now s)) k
               = averageResolutionTime (record_resolution ops t now
                   (findOne_performance office (responderRole (last (responses c))) now s))"
    by (simp_all add: resolved_count_def average_time_def p)
  have n: "resolved_count (snd (accept ops u i now s)) k = resolved_count s k + 1"
    unfolding new old by (simp add: record_resolution_fields)
  have a: "average_time (snd (accept ops u i now s)) k =
           (if n_is_zero ops (average_time s k) then t
            else n_div ops
                   (n_add ops
                      (n_mul ops (average_time s k)
                         (n_of_int ops (int (resolved_count (snd (accept ops u i now s)) k) - 1)))
                      t)
                   (n_of_int ops (int (resolved_count (snd (accept ops u i now s)) k))))"
    unfolding n unfolding new old by (simp add: record_resolution_fields add.commute)
  from n a show ?thesis by blast
qed

subsection \<open>Stage and handler agree on every stored complaint\<close>

text \<open>
  The agreement holds in the empty store and every request preserves it.
\<close>

lemma handlers_match_iff:
  "handlers_match s =
     (\<forall>c \<in> set (complaints s). currentHandler c = stage_handler (currentStage c))"
  by (simp add: handlers_match_def list_all_iff)

lemma handlers_match_update:
  assumes "handlers_match s" "currentHandler c = stage_handler (currentStage c)"
  shows "handlers_match (s\<lparr>complaints := (complaints s)[i := pre_save b now c]\<rparr>)"
  using assms set_update_subset_insert[of "complaints s" i "pre_save b now c"]
  by (auto simp: handlers_match_iff pre_save_def Let_def)

lemma handlers_match_append:
  assumes "handlers_match s" "currentHandler c = stage_handler (currentStage c)"
  shows "handlers_match (s\<lparr>complaints := complaints s @ [pre_save b now c]\<rparr>)"
  using assms by (auto simp: handlers_match_iff pre_save_def Let_def)

lemma handlers_match_performance [simp]:
  "handlers_match (save_performance a b p s) = handlers_match s"
  "handlers_match (count_complaint a b now s) = handlers_match s"
  "handlers_match (escalate_performance i now r fs ts c s) = handlers_match s"
  by (simp_all add: handlers_match_def)

lemma handlers_match_save:
  assumes "handlers_match s" "currentHandler c = stage_handler (currentStage c)"
  shows "handlers_match (snd (save_complaint i now c s))"
  using assms by (simp add: save_complaint_def handlers_match_update)

lemma handlers_match_insert:
  assumes "handlers_match s" "currentHandler c = stage_handler (currentStage c)"
  shows "handlers_match (snd (insert_complaint now c s))"
  using assms by (simp add: insert_complaint_def handlers_match_append)

lemma handlers_match_nth:
  "handlers_match s \<Longrightarrow> findById i (complaints s) = Some c
     \<Longrightarrow> currentHandler c = stage_handler (currentStage c)"
  using findById_Some[of i "complaints s" c] by (auto simp: handlers_match_iff)

lemma escalate_complaint_handler [simp]:
  "currentHandler (escalate_complaint now r ns nh fs ts df c) = nh"
  by (simp add: escalate_complaint_def Let_def split: option.splits del: set_due.simps)

lemma switch_next_handler:
  assumes "escalate_switch now c = CanEscalate ns nh fs ts df"
  shows "nh = stage_handler ns"
  using switch_cases[OF assms] by auto

lemma escalate_handlers_match:
  assumes "handlers_match s"
  shows "handlers_match (snd (escalate u i r now s))"
proof (cases "findById i (complaints s)")
  case None
  then show ?thesis using assms by (simp add: escalate_def)
next
  case (Some c)
  show ?thesis
  proof (cases "escalate_switch now c")
    case (CanEscalate ns nh fs ts df)
    have "handlers_match (snd (save_complaint i now (escalate_complaint now r ns nh fs ts df c)
               (escalate_performance i now r fs ts
                  (escalate_complaint now r ns nh fs ts df c) s)))"
      by (rule handlers_match_save) (use assms switch_next_handler[OF CanEscalate] in simp_all)
    then show ?thesis
      using Some CanEscalate assms by (simp add: escalate_def Let_def)
  qed (use Some assms in \<open>simp_all add: escalate_def\<close>)
qed

lemma respond_handlers_match:
  assumes "handlers_match s"
  shows "handlers_match (snd (respond u i a b now s))"
proof (cases "findById i (complaints s)")
  case None
  then show ?thesis using assms by (simp add: respond_def)
next
  case (Some c)
  have "handlers_match (snd (save_complaint i now c' s))"
    if "currentStage c' = currentStage c" "currentHandler c' = currentHandler c" for c'
    by (rule handlers_match_save) (use assms handlers_match_nth[OF assms Some] that in simp_all)
  then show ?thesis
    using Some assms by (simp add: respond_def split: option.splits bool.splits)
qed

lemma accept_handlers_match:
  assumes "handlers_match s"
  shows "handlers_match (snd (accept ops u i now s))"
proof (cases "findById i (complaints s)")
  case None
  then show ?thesis using assms by (simp add: accept_def)
next
  case (Some c)
  have "handlers_match (snd (save_complaint i now c' s))"
    if "currentStage c' = currentStage c" "currentHandler c' = currentHandler c" for c'
    by (rule handlers_match_save) (use assms handlers_match_nth[OF assms Some] that in simp_all)
  from this[of "c\<lparr>status := RESOLVED,
                  resolution := Some
                    \<lparr>resolvedBy = responder (last (responses c)),
                     resolverRole = responderRole (last (responses c)),
                     resolution_text = response (last (responses c)),
                     resolvedAt = now\<rparr>,
                  updatedAt := now\<rparr>"]
  show ?thesis
    using Some assms
    by (auto simp: accept_def Let_def split: prod.splits outcome.splits option.splits)
qed

lemma submit_first_stage_handlers_match:
  assumes "handlers_match s"
  shows "handlers_match (snd (submit_first_stage u body now s))"
  using assms
  by (auto simp: submit_first_stage_def Let_def insert_complaint_def handlers_match_append
        new_Complaint_def split: option.splits)

lemma submit_second_stage_handlers_match:
  assumes "handlers_match s"
  shows "handlers_match (snd (submit_second_stage u body o' now s))"
proof (cases "find_original o' (actor_id u) (complaints s)")
  case None
  then show ?thesis using assms by (simp add: submit_second_stage_def)
next
  case (Some c)
  then have fb: "findById o' (complaints s) = Some c"
    and st: "currentStage c = STAKEHOLDER_FIRST \<or> currentStage c = WEREDA_FIRST"
    by (simp_all add: find_original_Some)
  note hc = handlers_match_nth[OF assms fb]
  from second_stage_plan_Some[OF st, of now] obtain ns nh df dd eto where
    plan: "second_stage_plan now (currentStage c) = Some (ns, nh, df, dd, eto)" by blast
  have new: "currentHandler (set_due df (Some dd)
                  (new_Complaint (actor_id u) body ns nh
                     (Some (case body_additionalDetails body of None \<Rightarrow> [] | Some d \<Rightarrow> d))
                     (Some o') now))
           = stage_handler (currentStage (set_due df (Some dd)
                  (new_Complaint (actor_id u) body ns nh
                     (Some (case body_additionalDetails body of None \<Rightarrow> [] | Some d \<Rightarrow> d))
                     (Some o') now)))"
    using second_stage_plan_cases[OF plan] by (auto simp: new_Complaint_def)
  have orig: "currentHandler (second_stage_original (length (complaints s)) ns nh eto now c)
           = stage_handler (currentStage
               (second_stage_original (length (complaints s)) ns nh eto now c))"
    using second_stage_plan_cases[OF plan] hc by (auto simp: second_stage_original_def)
  have m1: "handlers_match (s\<lparr>complaints := complaints s @
                      [pre_save True now
                         (set_due df (Some dd)
                            (new_Complaint (actor_id u) body ns nh
                               (Some (case body_additionalDetails body of
                                        None \<Rightarrow> [] | Some d \<Rightarrow> d))
                               (Some o') now))]\<rparr>)"
    by (rule handlers_match_append[OF assms new])
  have m2: "handlers_match (s\<lparr>complaints := (complaints s @
                      [pre_save True now
                         (set_due df (Some dd)
                            (new_Complaint (actor_id u) body ns nh
                               (Some (case body_additionalDetails body of
                                        None \<Rightarrow> [] | Some d \<Rightarrow> d))
                               (Some o') now))])
                      [o' := pre_save False now
                               (second_stage_original (length (complaints s)) ns nh eto now c)]\<rparr>)"
    using handlers_match_update[OF m1 orig, of o' False now] by simp
  show ?thesis
    unfolding submit_second_stage_eval[OF Some plan]
    using assms m1 m2 by simp
qed

lemma create_handlers_match:
  assumes "handlers_match s"
  shows "handlers_match (snd (create u body now s))"
  using assms
  by (auto simp: create_def submit_first_stage_handlers_match
        submit_second_stage_handlers_match split: option.splits bool.splits)

lemma step_handlers_match: "handlers_match s \<Longrightarrow> handlers_match (step ops s rq)"
  by (cases rq)
     (simp_all add: create_handlers_match escalate_handlers_match respond_handlers_match
        accept_handlers_match)

lemma run_handlers_match: "handlers_match s \<Longrightarrow> handlers_match (run ops s rs)"
  unfolding run_def
  by (induction rs arbitrary: s) (simp_all add: step_handlers_match)

lemma empty_store_handlers_match: "complaints s = [] \<Longrightarrow> handlers_match s"
  by (simp add: handlers_match_def)

subsection \<open>The handlers of the appended history entry\<close>

lemma escalate_from_handler:
  assumes "actor_role u = CITIZEN" and "findById i (complaints s) = Some c"
    and "user c = actor_id u" and "fst (escalate u i r now s) = Success"
  shows "from_handler (last (escalationHistory (complaints (snd (escalate u i r now s)) ! i)))
           = (if currentStage c = STAKEHOLDER_SECOND then STAKEHOLDER_OFFICE
              else if currentStage c = WEREDA_SECOND \<or> currentStage c = KIFLEKETEMA_SECOND
              then WEREDA_ANTI_CORRUPTION
              else stage_handler (currentStage c))"
proof -
  from escalate_new_complaint[OF assms] obtain ns nh fs ts df where
    sw: "escalate_switch now c = CanEscalate ns nh fs ts df"
    and c': "complaints (snd (escalate u i r now s)) ! i
               = pre_save False now (escalate_complaint now r ns nh fs ts df c)"
    by blast
  show ?thesis
    unfolding c' using switch_cases[OF sw]
    by (elim disjE conjE)
       (simp_all add: escalate_complaint_def Let_def del: set_due.simps)
qed

lemma escalation_dueDate_days:
  "escalation_dueDate now h = map_option (\<lambda>d. now + days d) (timeframe_days h)"
  by (cases h)
     (simp_all add: escalation_dueDate_def days_def STAKEHOLDER_RESPONSE_def WEREDA_RESPONSE_def
        KIFLEKETEMA_RESPONSE_def)

subsection \<open>The due dates written by a saved escalation\<close>

text \<open>
  After a successful escalation the due-date field of the new stage holds the
  time of the escalation plus the response window of the new handler and every
  other due-date field is as before; to kentiba no due-date field is written.
\<close>

lemma escalate_due_dates:
  assumes "actor_role u = CITIZEN" "findById i (complaints s) = Some c"
    "user c = actor_id u" "fst (escalate u i r now s) = Success"
  shows "(currentStage (complaints (snd (escalate u i r now s)) ! i) = KENTIBA \<longrightarrow>
            (\<forall>f. get_due f (complaints (snd (escalate u i r now s)) ! i) = get_due f c))
       \<and> (\<forall>f. stage_due_field (currentStage (complaints (snd (escalate u i r now s)) ! i)) = Some f \<longrightarrow>
            (\<exists>d. timeframe_days (currentHandler (complaints (snd (escalate u i r now s)) ! i)) = Some d
                 \<and> get_due f (complaints (snd (escalate u i r now s)) ! i) = Some (now + days d))
            \<and> (\<forall>g. g \<noteq> f \<longrightarrow>
                  get_due g (complaints (snd (escalate u i r now s)) ! i) = get_due g c))"
proof -
  from escalate_new_complaint[OF assms] obtain ns nh fs ts df where
    sw: "escalate_switch now c = CanEscalate ns nh fs ts df"
    and c': "complaints (snd (escalate u i r now s)) ! i
               = pre_save False now (escalate_complaint now r ns nh fs ts df c)"
    by blast
  show ?thesis
    unfolding c'
    using switch_cases[OF sw]
    by (elim disjE conjE)
       (simp_all add: escalate_complaint_def Let_def get_set_due escalation_dueDate_def days_def
          STAKEHOLDER_RESPONSE_def WEREDA_RESPONSE_def KIFLEKETEMA_RESPONSE_def
          del: set_due.simps)
qed

text \<open>
  From stakeholder_second to wereda_first at time 1000: the wereda due date is
  1000 plus five days.
\<close>

lemma escalate_due_dates_example:
  "actor_role ex_citizen = CITIZEN
   \<and> findById 0 (complaints (ex_store (ex_complaint STAKEHOLDER_SECOND STAKEHOLDER_OFFICE
         IN_PROGRESS [ex_response STAKEHOLDER_OFFICE, ex_response STAKEHOLDER_OFFICE])))
       = Some (ex_complaint STAKEHOLDER_SECOND STAKEHOLDER_OFFICE IN_PROGRESS
                 [ex_response STAKEHOLDER_OFFICE, ex_response STAKEHOLDER_OFFICE])
   \<and> user (ex_complaint STAKEHOLDER_SECOND STAKEHOLDER_OFFICE IN_PROGRESS
              [ex_response STAKEHOLDER_OFFICE, ex_response STAKEHOLDER_OFFICE])
       = actor_id ex_citizen
   \<and> fst (escalate ex_citizen 0 None 1000
            (ex_store (ex_complaint STAKEHOLDER_SECOND STAKEHOLDER_OFFICE IN_PROGRESS
               [ex_response STAKEHOLDER_OFFICE, ex_response STAKEHOLDER_OFFICE]))) = Success
   \<and> get_due WeredaFirstResponseDue
        (complaints (snd (escalate ex_citizen 0 None 1000
            (ex_store (ex_complaint STAKEHOLDER_SECOND STAKEHOLDER_OFFICE IN_PROGRESS
               [ex_response STAKEHOLDER_OFFICE, ex_response STAKEHOLDER_OFFICE])))) ! 0)
       = Some (1000 + days 5)"
proof -
  let ?c = "ex_complaint STAKEHOLDER_SECOND STAKEHOLDER_OFFICE IN_PROGRESS
              [ex_response STAKEHOLDER_OFFICE, ex_response STAKEHOLDER_OFFICE]"
  let ?s' = "snd (escalate ex_citizen 0 None 1000 (ex_store ?c))"
  have h1: "actor_role ex_citizen = CITIZEN" by (simp add: ex_defs)
  have h2: "findById 0 (complaints (ex_store ?c)) = Some ?c" by (simp add: ex_defs findById_def)
  have h3: "user ?c = actor_id ex_citizen" by (simp add: ex_defs)
  have h4: "fst (escalate ex_citizen 0 None 1000 (ex_store ?c)) = Success"
    by (simp add: route_defs ex_defs)
  have st: "stage_due_field (currentStage (complaints ?s' ! 0)) = Some WeredaFirstResponseDue"
    by (simp add: route_defs ex_defs)
  have tf: "timeframe_days (currentHandler (complaints ?s' ! 0)) = Some 5"
    by (simp add: route_defs ex_defs)
  have "get_due WeredaFirstResponseDue (complaints ?s' ! 0) = Some (1000 + days 5)"
    using escalate_due_dates[OF h1 h2 h3 h4] st tf by auto
  with h1 h2 h3 h4 show ?thesis by blast
qed

text \<open>
  No successful escalation starts at stakeholder_first, and none hands the
  complaint to the stakeholder office: the three-day window is computed by the
  route and never stored by it.
\<close>

lemma escalate_success_not_stakeholder:
  assumes "actor_role u = CITIZEN" and "findById i (complaints s) = Some c"
    and "user c = actor_id u" and "fst (escalate u i r now s) = Success"
  shows "currentStage c \<noteq> STAKEHOLDER_FIRST
       \<and> currentHandler (complaints (snd (escalate u i r now s)) ! i) \<noteq> STAKEHOLDER_OFFICE"
proof -
  from escalate_new_complaint[OF assms] obtain ns nh fs ts df where
    sw: "escalate_switch now c = CanEscalate ns nh fs ts df"
    and c': "complaints (snd (escalate u i r now s)) ! i
               = pre_save False now (escalate_complaint now r ns nh fs ts df c)"
    and v: "validate (escalate_complaint now r ns nh fs ts df c)"
    by blast
  show ?thesis
    unfolding c' using switch_cases[OF sw] v
    by (elim disjE conjE)
       (simp_all add: escalate_complaint_def Let_def validate_def valid_escalation_entry_def
          del: set_due.simps)
qed

section \<open>Claims\<close>

subsection \<open>C1: eligibility and success of an escalation\<close>

text \<open>
  C1, at the input where the code departs from it. A complaint is submitted at
  time 0 and its owner asks for escalation four days later, after the due date
  of stakeholder_first: the request is eligible, yet it ends in a server error
  and the store is unchanged, because the history entry pushed for the step to
  stakeholder_second has \<open>to\<close> = stakeholder_office, which the schema rejects on
  save.
\<close>

theorem escalate_stakeholder_first_server_error:
  "currentStage (complaints (snd (create ex_citizen ex_body 0 ex_empty)) ! 0) = STAKEHOLDER_FIRST
   \<and> status (complaints (snd (create ex_citizen ex_body 0 ex_empty)) ! 0) = PENDING
   \<and> stakeholderFirstResponseDue (complaints (snd (create ex_citizen ex_body 0 ex_empty)) ! 0)
       = Some (days 3)
   \<and> eligible (days 4) (complaints (snd (create ex_citizen ex_body 0 ex_empty)) ! 0)
   \<and> escalate ex_citizen 0 None (days 4) (snd (create ex_citizen ex_body 0 ex_empty))
       = (Failure ServerError, snd (create ex_citizen ex_body 0 ex_empty))"
  by (simp add: route_defs ex_defs create_def submit_first_stage_def find_stakeholderOffice_def
        new_Complaint_def insert_complaint_def count_complaint_def days_def eligible_def
        stage_due_def)

subsection \<open>C2: history and performance records of an escalation\<close>

text \<open>
  C2, as amended. Every successful escalation appends exactly one
  EscalationHistory entry, whose \<open>to\<close> is the new handler. When the escalation
  crosses a handler boundary and an office to penalize is found (the complaint's
  stakeholder office on leaving stakeholder_second, the first user with the
  wereda or kifleketema role on leaving wereda_second or kifleketema_second),
  that office's escalatedComplaints grows by exactly 1, exactly one failure
  record is appended to it and no other OfficePerformance record changes; when no
  user holds the role, no OfficePerformance record changes. When the escalation
  stays with the same handler, the entry has \<open>from\<close> equal to \<open>to\<close> and no
  OfficePerformance record changes.
\<close>

theorem escalate_records:
  assumes "actor_role u = CITIZEN" "findById i (complaints s) = Some c"
    "user c = actor_id u" "fst (escalate u i r now s) = Success"
  shows "\<exists>e. escalationHistory (complaints (snd (escalate u i r now s)) ! i)
               = escalationHistory c @ [e]
             \<and> to_handler e = currentHandler (complaints (snd (escalate u i r now s)) ! i)
             \<and> (if crosses_handler (currentStage c)
                then (case penalized_office (currentStage c) c (users s) of
                        None \<Rightarrow>
                          performance (snd (escalate u i r now s)) = performance s
                      | Some k \<Rightarrow>
                          escalated_count (snd (escalate u i r now s)) k
                            = escalated_count s k + 1
                          \<and> (\<exists>f. failure_records (snd (escalate u i r now s)) k
                                   = failure_records s k @ [f])
                          \<and> (\<forall>k'. k' \<noteq> k \<longrightarrow>
                                performance (snd (escalate u i r now s)) k' = performance s k'))
                else from_handler e = to_handler e
                     \<and> performance (snd (escalate u i r now s)) = performance s)"
proof -
  from escalate_new_complaint[OF assms] obtain ns nh fs ts df where
    sw: "escalate_switch now c = CanEscalate ns nh fs ts df"
    and c': "complaints (snd (escalate u i r now s)) ! i
               = pre_save False now (escalate_complaint now r ns nh fs ts df c)"
    and p': "performance (snd (escalate u i r now s))
               = performance (escalate_performance i now r fs ts
                                (escalate_complaint now r ns nh fs ts df c) s)"
    by blast
  have perf: "fs = Some f \<Longrightarrow> ts = Some t \<Longrightarrow>
      (case penalized_office f c (users s) of
         None \<Rightarrow> performance (snd (escalate u i r now s)) = performance s
       | Some k \<Rightarrow>
           escalated_count (snd (escalate u i r now s)) k = escalated_count s k + 1
           \<and> (\<exists>fr. failure_records (snd (escalate u i r now s)) k = failure_records s k @ [fr])
           \<and> (\<forall>k'. k' \<noteq> k \<longrightarrow>
                 performance (snd (escalate u i r now s)) k' = performance s k'))" for f t
    by (auto simp: p' escalate_performance_def penalized_office_escalate_complaint escalated_count_def failure_records_def
          save_performance_lookup findOne_performance_def record_failure_def
          new_OfficePerformance_def
          split: option.splits)
  have hist: "\<exists>e. escalationHistory (complaints (snd (escalate u i r now s)) ! i)
                    = escalationHistory c @ [e]
                \<and> to_handler e = currentHandler (complaints (snd (escalate u i r now s)) ! i)
                \<and> (\<not> crosses_handler (currentStage c) \<longrightarrow> from_handler e = to_handler e)"
    unfolding c' using switch_cases[OF sw]
    by (elim disjE conjE)
       (simp_all add: escalate_complaint_def Let_def crosses_handler_def del: set_due.simps)
  have within: "\<not> crosses_handler (currentStage c) \<Longrightarrow>
                  performance (snd (escalate u i r now s)) = performance s"
    using switch_cases[OF sw] by (auto simp: p' crosses_handler_def)
  have cross: "crosses_handler (currentStage c) \<Longrightarrow>
      (case penalized_office (currentStage c) c (users s) of
         None \<Rightarrow> performance (snd (escalate u i r now s)) = performance s
       | Some k \<Rightarrow>
           escalated_count (snd (escalate u i r now s)) k = escalated_count s k + 1
           \<and> (\<exists>fr. failure_records (snd (escalate u i r now s)) k = failure_records s k @ [fr])
           \<and> (\<forall>k'. k' \<noteq> k \<longrightarrow>
                 performance (snd (escalate u i r now s)) k' = performance s k'))"
    using switch_cases[OF sw] perf by (auto simp: crosses_handler_def)
  from hist obtain e where
    e: "escalationHistory (complaints (snd (escalate u i r now s)) ! i) = escalationHistory c @ [e]"
       "to_handler e = currentHandler (complaints (snd (escalate u i r now s)) ! i)"
       "\<not> crosses_handler (currentStage c) \<longrightarrow> from_handler e = to_handler e"
    by blast
  show ?thesis
  proof (cases "crosses_handler (currentStage c)")
    case True
    then show ?thesis using e cross by (intro exI[of _ e]) simp
  next
    case False
    then show ?thesis using e within by (intro exI[of _ e]) simp
  qed
qed

text \<open>
  From stakeholder_second to wereda_first: office 5 is penalized, its counter
  goes up by one.
\<close>

theorem escalate_records_witness:
  "actor_role ex_citizen = CITIZEN
   \<and> findById 0 (complaints (ex_store (ex_complaint STAKEHOLDER_SECOND STAKEHOLDER_OFFICE
         IN_PROGRESS [ex_response STAKEHOLDER_OFFICE, ex_response STAKEHOLDER_OFFICE])))
       = Some (ex_complaint STAKEHOLDER_SECOND STAKEHOLDER_OFFICE IN_PROGRESS
                 [ex_response STAKEHOLDER_OFFICE, ex_response STAKEHOLDER_OFFICE])
   \<and> user (ex_complaint STAKEHOLDER_SECOND STAKEHOLDER_OFFICE IN_PROGRESS
              [ex_response STAKEHOLDER_OFFICE, ex_response STAKEHOLDER_OFFICE])
       = actor_id ex_citizen
   \<and> fst (escalate ex_citizen 0 None 1000
            (ex_store (ex_complaint STAKEHOLDER_SECOND STAKEHOLDER_OFFICE IN_PROGRESS
               [ex_response STAKEHOLDER_OFFICE, ex_response STAKEHOLDER_OFFICE]))) = Success
   \<and> escalated_count
        (snd (escalate ex_citizen 0 None 1000
            (ex_store (ex_complaint STAKEHOLDER_SECOND STAKEHOLDER_OFFICE IN_PROGRESS
               [ex_response STAKEHOLDER_OFFICE, ex_response STAKEHOLDER_OFFICE]))))
        (5, STAKEHOLDER_OFFICE)
       = escalated_count
           (ex_store (ex_complaint STAKEHOLDER_SECOND STAKEHOLDER_OFFICE IN_PROGRESS
               [ex_response STAKEHOLDER_OFFICE, ex_response STAKEHOLDER_OFFICE]))
           (5, STAKEHOLDER_OFFICE) + 1"
proof -
  let ?c = "ex_complaint STAKEHOLDER_SECOND STAKEHOLDER_OFFICE IN_PROGRESS
              [ex_response STAKEHOLDER_OFFICE, ex_response STAKEHOLDER_OFFICE]"
  let ?s' = "snd (escalate ex_citizen 0 None 1000 (ex_store ?c))"
  have h1: "actor_role ex_citizen = CITIZEN" by (simp add: ex_defs)
  have h2: "findById 0 (complaints (ex_store ?c)) = Some ?c" by (simp add: ex_defs findById_def)
  have h3: "user ?c = actor_id ex_citizen" by (simp add: ex_defs)
  have h4: "fst (escalate ex_citizen 0 None 1000 (ex_store ?c)) = Success"
    by (simp add: route_defs ex_defs)
  have cr: "crosses_handler (currentStage ?c)" by (simp add: ex_defs crosses_handler_def)
  have po: "penalized_office (currentStage ?c) ?c (users (ex_store ?c)) = Some (5, STAKEHOLDER_OFFICE)"
    by (simp add: ex_defs penalized_office_def)
  have "escalated_count ?s' (5, STAKEHOLDER_OFFICE)
          = escalated_count (ex_store ?c) (5, STAKEHOLDER_OFFICE) + 1"
    using escalate_records[OF h1 h2 h3 h4] cr po by auto
  with h1 h2 h3 h4 show ?thesis by blast
qed

text \<open>
  C2 as stated fails when no wereda officer is registered: the complaint moves
  from wereda_second to the kifleketema officer, and the performance store stays
  empty, so no counter is incremented and no failure record is appended.
\<close>

theorem escalate_records_counterexample:
  "crosses_handler (currentStage (ex_complaint WEREDA_SECOND WEREDA_ANTI_CORRUPTION PENDING []))
   \<and> fst (escalate ex_citizen 0 None 1000
            (ex_store ((ex_complaint WEREDA_SECOND WEREDA_ANTI_CORRUPTION PENDING [])
                         \<lparr>weredaSecondResponseDue := Some 500\<rparr>))) = Success
   \<and> currentHandler (complaints (snd (escalate ex_citizen 0 None 1000
            (ex_store ((ex_complaint WEREDA_SECOND WEREDA_ANTI_CORRUPTION PENDING [])
                         \<lparr>weredaSecondResponseDue := Some 500\<rparr>)))) ! 0)
       = KIFLEKETEMA_ANTI_CORRUPTION
   \<and> performance (snd (escalate ex_citizen 0 None 1000
            (ex_store ((ex_complaint WEREDA_SECOND WEREDA_ANTI_CORRUPTION PENDING [])
                         \<lparr>weredaSecondResponseDue := Some 500\<rparr>))))
       = Map.empty"
  by (simp add: route_defs ex_defs crosses_handler_def)

subsection \<open>C3: stages only move forward\<close>

text \<open>
  C3. Whatever sequence of requests is served (first-stage and second-stage
  submissions, escalations, responses, acceptances, by any callers, succeeding or
  failing), every complaint of the store is still there afterwards and its stage
  is at the same or a later position of the order stakeholder_first,
  stakeholder_second, wereda_first, wereda_second, kifleketema_first,
  kifleketema_second, kentiba.
\<close>

theorem stage_never_moves_backward:
  assumes "i < length (complaints s)"
  shows "i < length (complaints (run ops s rs))
       \<and> stage_index (currentStage (complaints s ! i))
           \<le> stage_index (currentStage (complaints (run ops s rs) ! i))"
  using run_advances[of s ops rs] assms by (auto simp: advances_iff)

text \<open>
  Five requests of all kinds on a complaint at stakeholder_first leave it at
  wereda_first.
\<close>

theorem stage_never_moves_backward_witness:
  "0 < length (complaints (ex_store (ex_complaint STAKEHOLDER_FIRST STAKEHOLDER_OFFICE PENDING [])))
   \<and> currentStage (complaints
         (ex_store (ex_complaint STAKEHOLDER_FIRST STAKEHOLDER_OFFICE PENDING [])) ! 0)
       = STAKEHOLDER_FIRST
   \<and> currentStage (complaints
         (run exact_numbers
              (ex_store (ex_complaint STAKEHOLDER_FIRST STAKEHOLDER_OFFICE PENDING []))
              ex_requests) ! 0)
       = WEREDA_FIRST
   \<and> stage_index (currentStage (complaints
         (ex_store (ex_complaint STAKEHOLDER_FIRST STAKEHOLDER_OFFICE PENDING [])) ! 0))
       \<le> stage_index (currentStage (complaints
         (run exact_numbers
              (ex_store (ex_complaint STAKEHOLDER_FIRST STAKEHOLDER_OFFICE PENDING []))
              ex_requests) ! 0))"
proof -
  let ?s = "ex_store (ex_complaint STAKEHOLDER_FIRST STAKEHOLDER_OFFICE PENDING [])"
  have h: "0 < length (complaints ?s)" by (simp add: ex_defs)
  have a: "currentStage (complaints ?s ! 0) = STAKEHOLDER_FIRST" by (simp add: ex_defs)
  have b: "currentStage (complaints (run exact_numbers ?s ex_requests) ! 0) = WEREDA_FIRST"
    by (simp add: run_def ex_requests_def all_route_defs ex_defs exact_numbers_def)
  have c: "stage_index (currentStage (complaints ?s ! 0))
             \<le> stage_index (currentStage (complaints (run exact_numbers ?s ex_requests) ! 0))"
    using stage_never_moves_backward[OF h, of exact_numbers ex_requests] by blast
  from h a b c show ?thesis by blast
qed

subsection \<open>C4: the original complaint after a second-stage submission\<close>

text \<open>
  C4, as amended. Right after a successful second-stage submission the original
  complaint has secondStageComplaint set to the new complaint, status escalated,
  the second stage of its level, its responses as before, and as due date of its
  new stage whatever its own second-stage field held (the new due date is written
  to the new complaint only). Escalation of the original is not frozen: a later
  escalate request of the owner on it succeeds exactly when the ordinary
  eligibility rule holds for the original (that due date has passed, or it has
  more responses than the index of its stage), and fails with
  EscalationNotAllowedError otherwise.
\<close>

theorem second_stage_original_escalation:
  fixes u body now s o'
  defines "original \<equiv> complaints (snd (create u body now s)) ! o'"
  assumes "actor_role u = CITIZEN" and "isSecondStage body = Some ''true''"
    and "originalComplaintId body = Some o'" and "fst (create u body now s) = Success"
  shows "secondStageComplaint original = Some (length (complaints s))
       \<and> status original = ESCALATED
       \<and> currentStage original =
           (if currentStage (complaints s ! o') = STAKEHOLDER_FIRST
            then STAKEHOLDER_SECOND else WEREDA_SECOND)
       \<and> responses original = responses (complaints s ! o')
       \<and> stage_due original
           = (if currentStage (complaints s ! o') = STAKEHOLDER_FIRST
              then stakeholderSecondResponseDue (complaints s ! o')
              else weredaSecondResponseDue (complaints s ! o'))
       \<and> (\<forall>r now'. fst (escalate u o' r now' (snd (create u body now s)))
             = (if eligible now' original then Success else Failure EscalationNotAllowedError))"
proof -
  have cr: "create u body now s = submit_second_stage u body o' now s"
    using assms(2-4) by (rule create_second_stage)
  from second_stage_original_fields[of u body o' now s] assms(5) cr
  obtain c ns nh eto df dd where
    fb: "findById o' (complaints s) = Some c"
    and fo: "find_original o' (actor_id u) (complaints s) = Some c"
    and plan: "second_stage_plan now (currentStage c) = Some (ns, nh, df, dd, eto)"
    and v: "validate c"
    and orig: "original = pre_save False now
                 (second_stage_original (length (complaints s)) ns nh eto now c)"
    and lt: "o' < length (complaints (snd (create u body now s)))"
    unfolding original_def by auto
  have c: "complaints s ! o' = c" using findById_Some[OF fb] by simp
  have fields: "secondStageComplaint original = Some (length (complaints s))"
      "status original = ESCALATED"
      "currentStage original =
           (if currentStage c = STAKEHOLDER_FIRST then STAKEHOLDER_SECOND else WEREDA_SECOND)"
      "responses original = responses c"
      "stage_due original
           = (if currentStage c = STAKEHOLDER_FIRST
              then stakeholderSecondResponseDue c else weredaSecondResponseDue c)"
      "user original = actor_id u"
    using second_stage_plan_cases[OF plan] fo unfolding orig
    by (auto simp: second_stage_original_def pre_save_def stage_due_def find_original_Some)
  have vo: "validate original"
    unfolding orig using validate_second_stage_original[OF plan] v by simp
  have f': "findById o' (complaints (snd (create u body now s))) = Some original"
    using lt by (simp add: findById_def original_def)
  have nr: "status original \<noteq> RESOLVED" "currentStage original \<noteq> KENTIBA"
    "currentStage original \<noteq> STAKEHOLDER_FIRST"
    using fields by auto
  have "fst (escalate u o' r now' (snd (create u body now s)))
          = (if eligible now' original then Success else Failure EscalationNotAllowedError)"
    for r now'
    using escalate_outcome[OF assms(2) f' fields(6) nr(1,2) vo, of r now'] nr(3) by simp
  then show ?thesis using fields(1-5) unfolding c by blast
qed

text \<open>
  With a single response the original cannot be escalated after the submission,
  however late the request.
\<close>

theorem second_stage_original_escalation_witness:
  "actor_role ex_citizen = CITIZEN
   \<and> isSecondStage (ex_second_body 5) = Some ''true''
   \<and> originalComplaintId (ex_second_body 5) = Some 0
   \<and> fst (create ex_citizen (ex_second_body 5) 1000
            (ex_store (ex_complaint STAKEHOLDER_FIRST STAKEHOLDER_OFFICE IN_PROGRESS
                         [ex_response STAKEHOLDER_OFFICE]))) = Success
   \<and> status (complaints (snd (create ex_citizen (ex_second_body 5) 1000
            (ex_store (ex_complaint STAKEHOLDER_FIRST STAKEHOLDER_OFFICE IN_PROGRESS
                         [ex_response STAKEHOLDER_OFFICE])))) ! 0) = ESCALATED
   \<and> fst (escalate ex_citizen 0 None 999999999999
            (snd (create ex_citizen (ex_second_body 5) 1000
               (ex_store (ex_complaint STAKEHOLDER_FIRST STAKEHOLDER_OFFICE IN_PROGRESS
                            [ex_response STAKEHOLDER_OFFICE])))))
       = Failure EscalationNotAllowedError"
proof -
  let ?s = "ex_store (ex_complaint STAKEHOLDER_FIRST STAKEHOLDER_OFFICE IN_PROGRESS
                        [ex_response STAKEHOLDER_OFFICE])"
  let ?s' = "snd (create ex_citizen (ex_second_body 5) 1000 ?s)"
  have h1: "actor_role ex_citizen = CITIZEN" by (simp add: ex_defs)
  have h2: "isSecondStage (ex_second_body 5) = Some ''true''" by (simp add: ex_defs)
  have h3: "originalComplaintId (ex_second_body 5) = Some 0" by (simp add: ex_defs)
  have h4: "fst (create ex_citizen (ex_second_body 5) 1000 ?s) = Success"
    by (simp add: all_route_defs ex_defs)
  note th = second_stage_original_escalation[OF h1 h2 h3 h4]
  have ne: "\<not> eligible 999999999999 (complaints ?s' ! 0)"
    by (simp add: all_route_defs ex_defs eligible_def stage_due_def)
  have a: "status (complaints ?s' ! 0) = ESCALATED" using th by blast
  have b: "fst (escalate ex_citizen 0 None 999999999999 ?s') = Failure EscalationNotAllowedError"
    using th ne by simp
  from h1 h2 h3 h4 a b show ?thesis by blast
qed

text \<open>
  C4 as stated fails for an original with two responses: after the second-stage
  submission has set secondStageComplaint, the owner's escalate request on the
  original succeeds and moves it to wereda_first.
\<close>

theorem second_stage_original_escalation_counterexample:
  "fst (create ex_citizen (ex_second_body 5) 1000
          (ex_store (ex_complaint STAKEHOLDER_FIRST STAKEHOLDER_OFFICE IN_PROGRESS
                       [ex_response STAKEHOLDER_OFFICE, ex_response STAKEHOLDER_OFFICE])))
     = Success
   \<and> secondStageComplaint (complaints (snd (create ex_citizen (ex_second_body 5) 1000
          (ex_store (ex_complaint STAKEHOLDER_FIRST STAKEHOLDER_OFFICE IN_PROGRESS
                       [ex_response STAKEHOLDER_OFFICE, ex_response STAKEHOLDER_OFFICE])))) ! 0)
     = Some 1
   \<and> fst (escalate ex_citizen 0 None 2000
          (snd (create ex_citizen (ex_second_body 5) 1000
             (ex_store (ex_complaint STAKEHOLDER_FIRST STAKEHOLDER_OFFICE IN_PROGRESS
                          [ex_response STAKEHOLDER_OFFICE, ex_response STAKEHOLDER_OFFICE])))))
     = Success
   \<and> currentStage (complaints (snd (escalate ex_citizen 0 None 2000
          (snd (create ex_citizen (ex_second_body 5) 1000
             (ex_store (ex_complaint STAKEHOLDER_FIRST STAKEHOLDER_OFFICE IN_PROGRESS
                          [ex_response STAKEHOLDER_OFFICE, ex_response STAKEHOLDER_OFFICE])))))) ! 0)
     = WEREDA_FIRST"
  by (simp add: all_route_defs ex_defs)

subsection \<open>C5: second-stage submission\<close>

text \<open>
  C5, as amended. A second-stage submission of a citizen whose body carries the
  required title, description, location and office id, on a store of
  schema-valid complaints, succeeds if and only if the original complaint exists,
  belongs to the citizen, is at stakeholder_first or wereda_first, has status
  in_progress and at least one response. On success the new complaint belongs to
  the citizen, references the office named in the request body (the route does
  not compare it with the original's office), starts at the second stage of the
  original's level with the handler of that level (the original's handler
  whenever the original's handler matches its stage), has status pending, a due
  date for its stage of now plus the handler's response window, and
  relatedComplaint pointing at the original.
\<close>

theorem second_stage_submission:
  fixes u body now s o'
  defines "new \<equiv> complaints (snd (create u body now s)) ! length (complaints s)"
  assumes "actor_role u = CITIZEN" and "isSecondStage body = Some ''true''"
    and "originalComplaintId body = Some o'" and "body_complete body"
    and "list_all validate (complaints s)"
  shows "(fst (create u body now s) = Success)
           = (\<exists>c. findById o' (complaints s) = Some c \<and> user c = actor_id u
                  \<and> (currentStage c = STAKEHOLDER_FIRST \<or> currentStage c = WEREDA_FIRST)
                  \<and> status c = IN_PROGRESS \<and> responses c \<noteq> [])
       \<and> (fst (create u body now s) = Success \<longrightarrow>
            length (complaints (snd (create u body now s))) = Suc (length (complaints s))
            \<and> user new = actor_id u
            \<and> stakeholderOffice new = stakeholderOfficeId body
            \<and> currentStage new =
                (if currentStage (complaints s ! o') = STAKEHOLDER_FIRST
                 then STAKEHOLDER_SECOND else WEREDA_SECOND)
            \<and> currentHandler new = stage_handler (currentStage (complaints s ! o'))
            \<and> (currentHandler (complaints s ! o') = stage_handler (currentStage (complaints s ! o'))
                 \<longrightarrow> currentHandler new = currentHandler (complaints s ! o'))
            \<and> status new = PENDING
            \<and> (\<exists>d. timeframe_days (currentHandler new) = Some d
                    \<and> stage_due new = Some (now + days d))
            \<and> relatedComplaint new = Some o')"
proof -
  have cr: "create u body now s = submit_second_stage u body o' now s"
    using assms(2-4) by (rule create_second_stage)
  have iff: "(fst (create u body now s) = Success)
               = (\<exists>c. find_original o' (actor_id u) (complaints s) = Some c)"
  proof
    assume "fst (create u body now s) = Success"
    then show "\<exists>c. find_original o' (actor_id u) (complaints s) = Some c"
      using submit_second_stage_success[of u body o' now s] cr by auto
  next
    assume "\<exists>c. find_original o' (actor_id u) (complaints s) = Some c"
    then obtain c where fo: "find_original o' (actor_id u) (complaints s) = Some c" by blast
    then have fb: "o' < length (complaints s)" "complaints s ! o' = c"
      using findById_Some[of o' "complaints s" c] by (simp_all add: find_original_Some)
    then have v: "validate c" using assms(6) by (auto simp: list_all_length)
    from fo have "currentStage c = STAKEHOLDER_FIRST \<or> currentStage c = WEREDA_FIRST"
      by (simp add: find_original_Some)
    from second_stage_plan_Some[OF this, of now] obtain ns nh df dd eto where
      plan: "second_stage_plan now (currentStage c) = Some (ns, nh, df, dd, eto)" by blast
    show "fst (create u body now s) = Success"
      using submit_second_stage_eval[OF fo plan, of body] v assms(5) cr by simp
  qed
  have props: "length (complaints (snd (create u body now s))) = Suc (length (complaints s))
            \<and> user new = actor_id u
            \<and> stakeholderOffice new = stakeholderOfficeId body
            \<and> currentStage new =
                (if currentStage (complaints s ! o') = STAKEHOLDER_FIRST
                 then STAKEHOLDER_SECOND else WEREDA_SECOND)
            \<and> currentHandler new = stage_handler (currentStage (complaints s ! o'))
            \<and> (currentHandler (complaints s ! o') = stage_handler (currentStage (complaints s ! o'))
                 \<longrightarrow> currentHandler new = currentHandler (complaints s ! o'))
            \<and> status new = PENDING
            \<and> (\<exists>d. timeframe_days (currentHandler new) = Some d
                    \<and> stage_due new = Some (now + days d))
            \<and> relatedComplaint new = Some o'"
    if ok: "fst (create u body now s) = Success"
  proof -
    from submit_second_stage_success[of u body o' now s] ok cr
    obtain c ns nh df dd eto where
      fo: "find_original o' (actor_id u) (complaints s) = Some c"
      and plan: "second_stage_plan now (currentStage c) = Some (ns, nh, df, dd, eto)"
      and cs: "complaints (snd (create u body now s)) =
               (complaints s @
                  [pre_save True now
                     (set_due df (Some dd)
                        (new_Complaint (actor_id u) body ns nh
                           (Some (case body_additionalDetails body of
                                    None \<Rightarrow> [] | Some d \<Rightarrow> d))
                           (Some o') now))])
               [o' := pre_save False now
                        (second_stage_original (length (complaints s)) ns nh eto now c)]"
      by auto
    have fb: "o' < length (complaints s)" "complaints s ! o' = c"
      using fo findById_Some[of o' "complaints s" c] by (simp_all add: find_original_Some)
    have new: "new = pre_save True now
                     (set_due df (Some dd)
                        (new_Complaint (actor_id u) body ns nh
                           (Some (case body_additionalDetails body of
                                    None \<Rightarrow> [] | Some d \<Rightarrow> d))
                           (Some o') now))"
      unfolding new_def cs using fb(1) by (simp add: nth_list_update nth_append)
    have len: "length (complaints (snd (create u body now s))) = Suc (length (complaints s))"
      unfolding cs by simp
    show ?thesis
      using second_stage_plan_cases[OF plan] len
      unfolding new fb(2)
      by (elim disjE conjE)
         (simp_all add: pre_save_def new_Complaint_def stage_due_def days_def
            STAKEHOLDER_RESPONSE_def WEREDA_RESPONSE_def)
  qed
  have iff': "(fst (create u body now s) = Success)
           = (\<exists>c. findById o' (complaints s) = Some c \<and> user c = actor_id u
                  \<and> (currentStage c = STAKEHOLDER_FIRST \<or> currentStage c = WEREDA_FIRST)
                  \<and> status c = IN_PROGRESS \<and> responses c \<noteq> [])"
    using iff by (simp add: find_original_Some)
  show ?thesis
    using iff' props by blast
qed

text \<open>
  An original at stakeholder_first with one response: the submission succeeds and
  the new complaint starts at stakeholder_second.
\<close>

theorem second_stage_submission_witness:
  "actor_role ex_citizen = CITIZEN
   \<and> isSecondStage (ex_second_body 5) = Some ''true''
   \<and> originalComplaintId (ex_second_body 5) = Some 0
   \<and> body_complete (ex_second_body 5)
   \<and> list_all validate
        (complaints (ex_store (ex_complaint STAKEHOLDER_FIRST STAKEHOLDER_OFFICE IN_PROGRESS
                                 [ex_response STAKEHOLDER_OFFICE])))
   \<and> fst (create ex_citizen (ex_second_body 5) 1000
            (ex_store (ex_complaint STAKEHOLDER_FIRST STAKEHOLDER_OFFICE IN_PROGRESS
                         [ex_response STAKEHOLDER_OFFICE]))) = Success
   \<and> currentStage (complaints (snd (create ex_citizen (ex_second_body 5) 1000
            (ex_store (ex_complaint STAKEHOLDER_FIRST STAKEHOLDER_OFFICE IN_PROGRESS
                         [ex_response STAKEHOLDER_OFFICE])))) ! 1) = STAKEHOLDER_SECOND
   \<and> stakeholderOffice (complaints (snd (create ex_citizen (ex_second_body 5) 1000
            (ex_store (ex_complaint STAKEHOLDER_FIRST STAKEHOLDER_OFFICE IN_PROGRESS
                         [ex_response STAKEHOLDER_OFFICE])))) ! 1) = Some 5"
proof -
  let ?c = "ex_complaint STAKEHOLDER_FIRST STAKEHOLDER_OFFICE IN_PROGRESS
              [ex_response STAKEHOLDER_OFFICE]"
  let ?s = "ex_store ?c"
  have h1: "actor_role ex_citizen = CITIZEN" by (simp add: ex_defs)
  have h2: "isSecondStage (ex_second_body 5) = Some ''true''" by (simp add: ex_defs)
  have h3: "originalComplaintId (ex_second_body 5) = Some 0" by (simp add: ex_defs)
  have h4: "body_complete (ex_second_body 5)"
    by (simp add: ex_defs body_complete_def required_string_def)
  have h5: "list_all validate (complaints ?s)"
    by (simp add: ex_defs validate_def required_string_def)
  have len: "length (complaints ?s) = 1" by (simp add: ex_defs)
  have orig: "\<exists>c. findById 0 (complaints ?s) = Some c \<and> user c = actor_id ex_citizen
                \<and> (currentStage c = STAKEHOLDER_FIRST \<or> currentStage c = WEREDA_FIRST)
                \<and> status c = IN_PROGRESS \<and> responses c \<noteq> []"
    by (simp add: ex_defs findById_def)
  have st: "currentStage (complaints ?s ! 0) = STAKEHOLDER_FIRST" by (simp add: ex_defs)
  have of5: "stakeholderOfficeId (ex_second_body 5) = Some 5" by (simp add: ex_defs)
  note th = second_stage_submission[OF h1 h2 h3 h4 h5, of 1000, unfolded len]
  have ok: "fst (create ex_citizen (ex_second_body 5) 1000 ?s) = Success"
    using th orig by blast
  have "currentStage (complaints (snd (create ex_citizen (ex_second_body 5) 1000 ?s)) ! 1)
          = STAKEHOLDER_SECOND
        \<and> stakeholderOffice (complaints (snd (create ex_citizen (ex_second_body 5) 1000 ?s)) ! 1)
          = Some 5"
    using th ok st of5 by simp
  with h1 h2 h3 h4 h5 ok show ?thesis by blast
qed

text \<open>
  C5 as stated fails when the request names another office: the original is
  directed at office 5, the body names office 9, the submission succeeds and the
  new complaint, linked to the original, is directed at office 9.
\<close>

theorem second_stage_submission_counterexample:
  "fst (create ex_citizen (ex_second_body 9) 1000
          (ex_store (ex_complaint STAKEHOLDER_FIRST STAKEHOLDER_OFFICE IN_PROGRESS
                       [ex_response STAKEHOLDER_OFFICE]))) = Success
   \<and> stakeholderOffice (complaints
        (ex_store (ex_complaint STAKEHOLDER_FIRST STAKEHOLDER_OFFICE IN_PROGRESS
                     [ex_response STAKEHOLDER_OFFICE])) ! 0) = Some 5
   \<and> relatedComplaint (complaints (snd (create ex_citizen (ex_second_body 9) 1000
          (ex_store (ex_complaint STAKEHOLDER_FIRST STAKEHOLDER_OFFICE IN_PROGRESS
                       [ex_response STAKEHOLDER_OFFICE])))) ! 1) = Some 0
   \<and> stakeholderOffice (complaints (snd (create ex_citizen (ex_second_body 9) 1000
          (ex_store (ex_complaint STAKEHOLDER_FIRST STAKEHOLDER_OFFICE IN_PROGRESS
                       [ex_response STAKEHOLDER_OFFICE])))) ! 1) = Some 9"
  by (simp add: all_route_defs ex_defs)

subsection \<open>C6: the handlers recorded in the history entry\<close>

text \<open>
  C6, at the input where the code departs from it. A complaint handled by the
  kifleketema officer at kifleketema_second is escalated to kentiba: the entry
  appended to the history names the wereda officer as \<open>from\<close>, not the
  kifleketema officer who held the complaint.
\<close>

theorem escalate_to_kentiba_from_handler:
  "currentHandler (ex_complaint KIFLEKETEMA_SECOND KIFLEKETEMA_ANTI_CORRUPTION PENDING [])
     = KIFLEKETEMA_ANTI_CORRUPTION
   \<and> fst (escalate ex_citizen 0 None 1000
            (ex_store ((ex_complaint KIFLEKETEMA_SECOND KIFLEKETEMA_ANTI_CORRUPTION PENDING [])
                         \<lparr>kifleketemaSecondResponseDue := Some 500\<rparr>))) = Success
   \<and> currentStage (complaints (snd (escalate ex_citizen 0 None 1000
            (ex_store ((ex_complaint KIFLEKETEMA_SECOND KIFLEKETEMA_ANTI_CORRUPTION PENDING [])
                         \<lparr>kifleketemaSecondResponseDue := Some 500\<rparr>)))) ! 0) = KENTIBA
   \<and> map from_handler (escalationHistory (complaints (snd (escalate ex_citizen 0 None 1000
            (ex_store ((ex_complaint KIFLEKETEMA_SECOND KIFLEKETEMA_ANTI_CORRUPTION PENDING [])
                         \<lparr>kifleketemaSecondResponseDue := Some 500\<rparr>)))) ! 0))
       = [WEREDA_ANTI_CORRUPTION]
   \<and> map to_handler (escalationHistory (complaints (snd (escalate ex_citizen 0 None 1000
            (ex_store ((ex_complaint KIFLEKETEMA_SECOND KIFLEKETEMA_ANTI_CORRUPTION PENDING [])
                         \<lparr>kifleketemaSecondResponseDue := Some 500\<rparr>)))) ! 0))
       = [KENTIBA_BIRO]"
  by (simp add: route_defs ex_defs)

subsection \<open>C7: escalation at the final stage\<close>

text \<open>
  C7, as amended. An escalation request of the owning citizen on a complaint at
  kentiba always fails and leaves the store unchanged: with TerminalStageError
  when the status is pending, in_progress or escalated, and with
  AlreadyResolvedError when the status is resolved, since the route tests the
  status before it looks at the stage. Responses and due dates play no part.
\<close>

theorem escalate_at_kentiba:
  assumes "actor_role u = CITIZEN" and "findById i (complaints s) = Some c"
    and "user c = actor_id u" and "currentStage c = KENTIBA"
  shows "escalate u i r now s =
           (Failure (if status c = RESOLVED then AlreadyResolvedError else TerminalStageError), s)"
  using assms by (simp add: escalate_def switch_kentiba)

text \<open>A pending complaint at kentiba: the request ends in TerminalStageError.\<close>

theorem escalate_at_kentiba_witness:
  "actor_role ex_citizen = CITIZEN
   \<and> findById 0 (complaints (ex_store (ex_complaint KENTIBA KENTIBA_BIRO PENDING [])))
       = Some (ex_complaint KENTIBA KENTIBA_BIRO PENDING [])
   \<and> user (ex_complaint KENTIBA KENTIBA_BIRO PENDING []) = actor_id ex_citizen
   \<and> currentStage (ex_complaint KENTIBA KENTIBA_BIRO PENDING []) = KENTIBA
   \<and> escalate ex_citizen 0 None 1000 (ex_store (ex_complaint KENTIBA KENTIBA_BIRO PENDING []))
       = (Failure TerminalStageError, ex_store (ex_complaint KENTIBA KENTIBA_BIRO PENDING []))"
proof -
  let ?c = "ex_complaint KENTIBA KENTIBA_BIRO PENDING []"
  have h1: "actor_role ex_citizen = CITIZEN" by (simp add: ex_defs)
  have h2: "findById 0 (complaints (ex_store ?c)) = Some ?c" by (simp add: ex_defs findById_def)
  have h3: "user ?c = actor_id ex_citizen" by (simp add: ex_defs)
  have h4: "currentStage ?c = KENTIBA" by (simp add: ex_defs)
  have st: "status ?c \<noteq> RESOLVED" by (simp add: ex_defs)
  have "escalate ex_citizen 0 None 1000 (ex_store ?c) = (Failure TerminalStageError, ex_store ?c)"
    using escalate_at_kentiba[OF h1 h2 h3 h4, of None 1000] st by simp
  with h1 h2 h3 h4 show ?thesis by blast
qed

text \<open>
  C7 as stated fails for a resolved complaint at kentiba: the request ends in
  AlreadyResolvedError, not in TerminalStageError.
\<close>

theorem escalate_at_kentiba_resolved_counterexample:
  "currentStage (ex_complaint KENTIBA KENTIBA_BIRO RESOLVED [ex_response KENTIBA_BIRO]) = KENTIBA
   \<and> fst (escalate ex_citizen 0 None 1000
            (ex_store (ex_complaint KENTIBA KENTIBA_BIRO RESOLVED [ex_response KENTIBA_BIRO])))
       = Failure AlreadyResolvedError
   \<and> fst (escalate ex_citizen 0 None 1000
            (ex_store (ex_complaint KENTIBA KENTIBA_BIRO RESOLVED [ex_response KENTIBA_BIRO])))
       \<noteq> Failure TerminalStageError"
  by (simp add: route_defs ex_defs)

subsection \<open>C8: the due date written by an escalation\<close>


subsection \<open>C9: the running mean of resolution times\<close>



subsection \<open>C10: escalation when the due date of the stage is unset\<close>



end
